theory Spec2Isabelle
  imports Complex_Main "HOL-Library.Multiset"
begin

section \<open>JavaScript string primitives used by the services\<close>

text \<open>
  Strings are byte lists. The primitives below follow the ECMAScript semantics of
  \<^verbatim>\<open>String.prototype.startsWith\<close>, \<^verbatim>\<open>endsWith\<close>, \<^verbatim>\<open>includes\<close> and of
  \<^verbatim>\<open>replace\<close> with a string pattern, which rewrites the first occurrence only.
\<close>

fun startsWith :: "string \<Rightarrow> string \<Rightarrow> bool" where
  "startsWith s [] = True"
| "startsWith [] (p # ps) = False"
| "startsWith (c # cs) (p # ps) = (c = p \<and> startsWith cs ps)"

definition endsWith :: "string \<Rightarrow> string \<Rightarrow> bool" where
  "endsWith s suf = startsWith (rev s) (rev suf)"

fun includesJS :: "string \<Rightarrow> string \<Rightarrow> bool" where
  "includesJS [] pat = (pat = [])"
| "includesJS (c # cs) pat = (startsWith (c # cs) pat \<or> includesJS cs pat)"

fun replace :: "string \<Rightarrow> string \<Rightarrow> string \<Rightarrow> string" where
  "replace [] pat rep = (if pat = [] then rep else [])"
| "replace (c # cs) pat rep =
     (if startsWith (c # cs) pat then rep @ drop (length pat) (c # cs)
      else c # replace cs pat rep)"

section \<open>Double-precision arithmetic\<close>

text \<open>
  JavaScript numbers are IEEE 754 binary64 values, and \<^verbatim>\<open>Math.floor\<close> is applied to
  the result of a division in the round-robin index and in two places of the zone
  synthesis, where rounding decides the integer; the health score and the weighted draw
  are sums, products and differences of doubles. \<open>binary64\<close> is round-to-nearest,
  ties-to-even, onto 53 significant bits: \<open>exponent2 x\<close> is the binary exponent of a
  positive \<open>x\<close>, and the value is
  scaled so that its integer part has 53 bits, rounded, and scaled back. This is the
  IEEE result for every value of the normal range (magnitudes from 2 to the power -1022
  up to 2 to the power 1024) and for 0, which covers every operand that occurs here. A
  double operation of the source is \<open>binary64\<close> of the exact result. A number read
  from a column or returned by \<^verbatim>\<open>Math.random\<close> is a double, that is a real that
  \<open>binary64\<close> leaves unchanged.
\<close>

definition roundEven :: "real \<Rightarrow> int" where
  "roundEven x =
     (let f = \<lfloor>x\<rfloor>; d = x - of_int f
      in if d < 1 / 2 then f else if 1 / 2 < d then f + 1 else if even f then f else f + 1)"

function exponent2 :: "real \<Rightarrow> int" where
  "exponent2 x =
     (if x \<le> 0 then 0
      else if 2 \<le> x then exponent2 (x / 2) + 1
      else if x < 1 then exponent2 (x * 2) - 1
      else 0)"
  by pat_completeness auto
termination
proof (relation "measure (\<lambda>x. if x < 1 then nat \<lceil>- log 2 x\<rceil> else nat \<lfloor>log 2 x\<rfloor>)")
  show "wf (measure (\<lambda>x. if x < 1 then nat \<lceil>- log 2 x\<rceil> else nat \<lfloor>log 2 x\<rfloor>))"
    by simp
next
  fix x :: real
  assume a: "\<not> x \<le> 0" "2 \<le> x"
  then have "log 2 (x / 2) = log 2 x - 1" by (simp add: log_divide)
  moreover from a have "1 \<le> log 2 x" by (simp add: le_log_iff)
  ultimately show "(x / 2, x) \<in> measure (\<lambda>x. if x < 1 then nat \<lceil>- log 2 x\<rceil> else nat \<lfloor>log 2 x\<rfloor>)"
    using a by simp
next
  fix x :: real
  assume a: "\<not> x \<le> 0" "\<not> 2 \<le> x" "x < 1"
  then have l: "log 2 (x * 2) = log 2 x + 1" by (simp add: log_mult)
  from a have neg: "log 2 x < 0" by simp
  show "(x * 2, x) \<in> measure (\<lambda>x. if x < 1 then nat \<lceil>- log 2 x\<rceil> else nat \<lfloor>log 2 x\<rfloor>)"
  proof (cases "x * 2 < 1")
    case True
    with a l neg show ?thesis by simp
  next
    case False
    with a have "log 2 (x * 2) < 1" by (simp add: log_less_iff)
    then have "\<lfloor>log 2 (x * 2)\<rfloor> \<le> 0" by linarith
    moreover from neg have "0 < \<lceil>- log 2 x\<rceil>" by linarith
    ultimately show ?thesis using False a by simp
  qed
qed

declare exponent2.simps [simp del]

definition binary64 :: "real \<Rightarrow> real" where
  "binary64 x =
     (if x = 0 then 0
      else sgn x * of_int (roundEven (\<bar>x\<bar> * 2 powi (52 - exponent2 \<bar>x\<bar>)))
             * 2 powi (exponent2 \<bar>x\<bar> - 52))"

section \<open>Health evaluation (class DNSLoadBalancerService)\<close>

text \<open>
  A probe returns \<^verbatim>\<open>{ status, responseTime }\<close>; the object returned by
  \<^verbatim>\<open>checkServerHealth\<close> and the stored health row extend it with the four metrics.
  \<^verbatim>\<open>Date.now()\<close> differences and the Prisma \<^verbatim>\<open>Int\<close> column are integers; the
  \<^verbatim>\<open>DOUBLE PRECISION\<close> metrics are reals holding the double's value.
\<close>

record probe =
  status :: string
  responseTime :: int

record serverHealth = probe +
  uptime :: real
  load :: real
  memoryUsage :: real
  diskUsage :: real

record systemMetrics =
  m_uptime :: real
  m_load :: real
  m_memoryUsage :: real
  m_diskUsage :: real

text \<open>
  What the outside world answers during one call of \<^verbatim>\<open>checkServerHealth\<close>:
  the stdout of the \<^verbatim>\<open>ping\<close> process (\<open>None\<close> when \<^verbatim>\<open>execAsync\<close> rejects),
  whether \<^verbatim>\<open>fetch\<close> resolved and with which \<^verbatim>\<open>response.ok\<close> (\<open>None\<close> when it
  throws or is aborted), the three measured durations in milliseconds, and the sample
  of the metrics source (\<open>None\<close> when the awaited call raises, which sends
  \<^verbatim>\<open>checkServerHealth\<close> into its \<^verbatim>\<open>catch\<close> block).
\<close>

record world =
  pingStdout :: "string option"
  pingElapsed :: int
  dnsElapsed :: int
  fetchOk :: "bool option"
  fetchElapsed :: int
  metricsSample :: "systemMetrics option"

definition pingTest :: "world \<Rightarrow> probe" where
  "pingTest w =
     (case pingStdout w of
        Some stdout \<Rightarrow>
          (if includesJS stdout ''1 packets transmitted, 1 received''
           then \<lparr>status = ''healthy'', responseTime = pingElapsed w\<rparr>
           else \<lparr>status = ''unhealthy'', responseTime = -1\<rparr>)
      | None \<Rightarrow> \<lparr>status = ''unhealthy'', responseTime = -1\<rparr>)"

definition dnsHealthCheck :: "world \<Rightarrow> probe" where
  "dnsHealthCheck w = \<lparr>status = ''healthy'', responseTime = dnsElapsed w\<rparr>"

definition httpHealthCheck :: "world \<Rightarrow> probe" where
  "httpHealthCheck w =
     (case fetchOk w of
        Some ok \<Rightarrow>
          (if ok then \<lparr>status = ''healthy'', responseTime = fetchElapsed w\<rparr>
           else \<lparr>status = ''unhealthy'', responseTime = -1\<rparr>)
      | None \<Rightarrow> \<lparr>status = ''unhealthy'', responseTime = -1\<rparr>)"

definition determineOverallStatus :: "probe \<Rightarrow> probe \<Rightarrow> string" where
  "determineOverallStatus pingResult portResult =
     (if status pingResult = ''healthy'' then
        (if status portResult = ''healthy'' \<or> status portResult = ''unknown''
         then ''healthy'' else ''degraded'')
      else if status portResult = ''healthy'' then ''degraded''
      else ''unhealthy'')"

definition portCheck :: "world \<Rightarrow> int \<Rightarrow> probe" where
  "portCheck w port =
     (if port = 53 then dnsHealthCheck w
      else if port = 80 \<or> port = 443 then httpHealthCheck w
      else pingTest w)"

definition checkServerHealth :: "world \<Rightarrow> int \<Rightarrow> serverHealth" where
  "checkServerHealth w port =
     (let pingResult = pingTest w;
          portResult = portCheck w port
      in case metricsSample w of
           Some systemMetrics \<Rightarrow>
             \<lparr>status = determineOverallStatus pingResult portResult,
              responseTime = responseTime portResult,
              uptime = m_uptime systemMetrics,
              load = m_load systemMetrics,
              memoryUsage = m_memoryUsage systemMetrics,
              diskUsage = m_diskUsage systemMetrics\<rparr>
         | None \<Rightarrow>
             \<lparr>status = ''unhealthy'', responseTime = -1, uptime = 0, load = 0,
              memoryUsage = 0, diskUsage = 0\<rparr>)"

text \<open>
  The status policy as the specification words it: an ordered list of four rules over
  three facts about the probes, first match wins.
\<close>

definition statusPolicy :: "bool \<Rightarrow> bool \<Rightarrow> bool \<Rightarrow> string" where
  "statusPolicy pingReachable portReachable portInapplicable =
     (if pingReachable \<and> (portReachable \<or> portInapplicable) then ''healthy''
      else if pingReachable \<and> \<not> portReachable then ''degraded''
      else if \<not> pingReachable \<and> portReachable then ''degraded''
      else ''unhealthy'')"

section \<open>Servers, balancers and the record table\<close>

text \<open>
  A server row with its optional health row, a balancer with \<^verbatim>\<open>lb.domain.name\<close>
  inlined, and a row of the \<^verbatim>\<open>DNSRecord\<close> table. Field names carry a prefix where
  the same name occurs in several tables. Columns \<^verbatim>\<open>INTEGER\<close> are integers;
  nullable columns are options.
\<close>

record dnsServer =
  server_id :: string
  server_name :: string
  ip :: string
  port :: int
  weight :: int
  isActive :: bool
  health :: "serverHealth option"

record loadBalancer =
  lb_id :: string
  lb_name :: string
  lb_domainId :: string
  lb_domainName :: string
  lb_isActive :: bool
  algorithm :: string
  servers :: "dnsServer list"

record dnsRecord =
  rec_id :: string
  rec_domainId :: string
  rec_name :: string
  rec_type :: string
  rec_value :: string
  rec_ttl :: int
  rec_priority :: "int option"
  rec_weight :: "int option"
  rec_port :: "int option"
  isLoadBalanced :: bool
  loadBalancerId :: "string option"

record domain =
  domain_id :: string
  domain_name :: string
  records :: "dnsRecord list"

section \<open>Selection (class DNSLoadBalancerService)\<close>

text \<open>
  \<^verbatim>\<open>createOrUpdateDNSRecord\<close> on the record table: \<^verbatim>\<open>findFirst\<close> by domain, name
  and type \<^verbatim>\<open>A\<close>; when a row is found its value and TTL are overwritten, otherwise a
  row is created. The created row names only \<^verbatim>\<open>domainId, name, type, value, ttl\<close>, so
  every other column takes its schema default (\<^verbatim>\<open>isLoadBalanced\<close> defaults to false,
  the nullable columns to null). \<open>newId\<close> is the key the database generates. The
  database calls are taken to succeed; the method's \<^verbatim>\<open>catch\<close> block only logs.
\<close>

definition recordName_of :: "loadBalancer \<Rightarrow> string" where
  "recordName_of loadBalancer = lb_name loadBalancer @ ''.'' @ lb_domainName loadBalancer"

definition createOrUpdateDNSRecord ::
  "dnsRecord list \<Rightarrow> string \<Rightarrow> loadBalancer \<Rightarrow> dnsServer \<Rightarrow> dnsRecord list" where
  "createOrUpdateDNSRecord table newId loadBalancer server =
     (let recordName = recordName_of loadBalancer in
      case find (\<lambda>r. rec_domainId r = lb_domainId loadBalancer \<and> rec_name r = recordName
                       \<and> rec_type r = ''A'') table of
        Some existingRecord \<Rightarrow>
          map (\<lambda>r. if rec_id r = rec_id existingRecord
                    then r\<lparr>rec_value := ip server, rec_ttl := 60\<rparr> else r) table
      | None \<Rightarrow>
          table @ [\<lparr>rec_id = newId, rec_domainId = lb_domainId loadBalancer,
                     rec_name = recordName, rec_type = ''A'', rec_value = ip server,
                     rec_ttl = 60, rec_priority = None, rec_weight = None, rec_port = None,
                     isLoadBalanced = False, loadBalancerId = None\<rparr>])"

text \<open>
  Round robin: the index is \<^verbatim>\<open>Math.floor(Date.now() / 1000) % healthyServers.length\<close>;
  \<open>now\<close> is the clock reading in milliseconds. \<^verbatim>\<open>updateDNSRecords\<close> calls the three
  selectors with a non-empty list only; on an empty list the index is \<^verbatim>\<open>NaN\<close>,
  the element is \<^verbatim>\<open>undefined\<close> and no server is chosen.
\<close>

definition selectRoundRobin :: "nat \<Rightarrow> dnsServer list \<Rightarrow> dnsServer option" where
  "selectRoundRobin now healthyServers =
     (if healthyServers = [] then None
      else Some (healthyServers !
             (nat \<lfloor>binary64 (real now / 1000)\<rfloor> mod length healthyServers)))"

text \<open>
  Weighted: \<^verbatim>\<open>totalWeight\<close> is the \<^verbatim>\<open>reduce\<close> that adds the weights from 0,
  \<^verbatim>\<open>random\<close> starts at \<^verbatim>\<open>Math.random() * totalWeight\<close> and each server subtracts its
  weight; the first server that brings it to zero or below is chosen and the loop ends.
  Every sum, product and difference is a double operation, rounded by \<open>binary64\<close>.
\<close>

definition totalWeight :: "dnsServer list \<Rightarrow> real" where
  "totalWeight healthyServers =
     foldl (\<lambda>sum s. binary64 (sum + real_of_int (weight s))) 0 healthyServers"

fun weightedWalk :: "real \<Rightarrow> dnsServer list \<Rightarrow> dnsServer option" where
  "weightedWalk random [] = None"
| "weightedWalk random (server # rest) =
     (if binary64 (random - real_of_int (weight server)) \<le> 0 then Some server
      else weightedWalk (binary64 (random - real_of_int (weight server))) rest)"

definition selectWeighted :: "real \<Rightarrow> dnsServer list \<Rightarrow> dnsServer option" where
  "selectWeighted mathRandom healthyServers =
     weightedWalk (binary64 (mathRandom * totalWeight healthyServers)) healthyServers"

text \<open>
  Health based: the score of a server, and \<^verbatim>\<open>reduce\<close> without an initial value,
  which starts from the first element and raises \<^verbatim>\<open>TypeError\<close> on an empty array
  (\<open>None\<close> here). The accumulator is always an object, so the \<^verbatim>\<open>!best\<close> test of the
  callback never fires. The five terms are the arguments of the \<^verbatim>\<open>score +=\<close>
  statements; \<^verbatim>\<open>score\<close> starts at 0 and every \<^verbatim>\<open>+=\<close>, like every difference,
  product and quotient inside a term, is a double operation rounded by \<open>binary64\<close>
  (\<^verbatim>\<open>Math.max\<close> and \<^verbatim>\<open>Math.min\<close> are exact).
\<close>

definition responseTimeTerm :: "serverHealth \<Rightarrow> real" where
  "responseTimeTerm h = max 0 (binary64 (100 - real_of_int (responseTime h)))"

definition uptimeTerm :: "serverHealth \<Rightarrow> real" where
  "uptimeTerm h = min 100 (binary64 (uptime h / 3600))"

definition loadTerm :: "serverHealth \<Rightarrow> real" where
  "loadTerm h = max 0 (binary64 (100 - binary64 (load h * 20)))"

definition memoryTerm :: "serverHealth \<Rightarrow> real" where
  "memoryTerm h = max 0 (binary64 (100 - memoryUsage h))"

definition diskTerm :: "serverHealth \<Rightarrow> real" where
  "diskTerm h = max 0 (binary64 (100 - diskUsage h))"

definition calculateHealthScore :: "dnsServer \<Rightarrow> real" where
  "calculateHealthScore server =
     (case health server of
        None \<Rightarrow> 0
      | Some h \<Rightarrow>
          (let score = 0;
               score = (if responseTime h > 0 then binary64 (score + responseTimeTerm h)
                        else score);
               score = binary64 (score + uptimeTerm h);
               score = binary64 (score + loadTerm h);
               score = binary64 (score + memoryTerm h);
               score = binary64 (score + diskTerm h)
           in score))"

definition betterServer :: "dnsServer \<Rightarrow> dnsServer \<Rightarrow> dnsServer" where
  "betterServer best current =
     (if calculateHealthScore current > calculateHealthScore best then current else best)"

definition selectHealthBased :: "dnsServer list \<Rightarrow> dnsServer option" where
  "selectHealthBased healthyServers =
     (case healthyServers of
        [] \<Rightarrow> None
      | first # rest \<Rightarrow> Some (foldl betterServer first rest))"

text \<open>
  The three \<^verbatim>\<open>update...DNS\<close> methods: select, then persist the selected server.
\<close>

definition persistSelection ::
  "dnsRecord list \<Rightarrow> string \<Rightarrow> loadBalancer \<Rightarrow> dnsServer option \<Rightarrow> dnsRecord list" where
  "persistSelection table newId loadBalancer selected =
     (case selected of
        None \<Rightarrow> table
      | Some server \<Rightarrow> createOrUpdateDNSRecord table newId loadBalancer server)"

definition updateRoundRobinDNS ::
  "dnsRecord list \<Rightarrow> string \<Rightarrow> nat \<Rightarrow> loadBalancer \<Rightarrow> dnsServer list \<Rightarrow> dnsRecord list" where
  "updateRoundRobinDNS table newId now loadBalancer healthyServers =
     persistSelection table newId loadBalancer (selectRoundRobin now healthyServers)"

definition updateWeightedDNS ::
  "dnsRecord list \<Rightarrow> string \<Rightarrow> real \<Rightarrow> loadBalancer \<Rightarrow> dnsServer list \<Rightarrow> dnsRecord list" where
  "updateWeightedDNS table newId mathRandom loadBalancer healthyServers =
     persistSelection table newId loadBalancer (selectWeighted mathRandom healthyServers)"

definition updateHealthBasedDNS ::
  "dnsRecord list \<Rightarrow> string \<Rightarrow> loadBalancer \<Rightarrow> dnsServer list \<Rightarrow> dnsRecord list" where
  "updateHealthBasedDNS table newId loadBalancer healthyServers =
     persistSelection table newId loadBalancer (selectHealthBased healthyServers)"

text \<open>
  The composite score as the specification writes it, with the response-time term
  counted for every response time: the sum of the five terms, added from left to right
  in double arithmetic.
\<close>

definition specScore :: "serverHealth \<Rightarrow> real" where
  "specScore h =
     binary64 (binary64 (binary64 (binary64 (responseTimeTerm h + uptimeTerm h)
       + loadTerm h) + memoryTerm h) + diskTerm h)"

text \<open>The same sum without the response-time term.\<close>

definition metricsScore :: "serverHealth \<Rightarrow> real" where
  "metricsScore h =
     binary64 (binary64 (binary64 (uptimeTerm h + loadTerm h) + memoryTerm h) + diskTerm h)"

section \<open>Resolver control\<close>

text \<open>
  \<^verbatim>\<open>execAsync\<close> runs a command line and rejects when the command fails. The shell
  is a predicate telling which command lines succeed. Each reload function returns the
  command lines it ran, in order, and how it ended: \<open>Inr ()\<close> for a normal return,
  \<open>Inl e\<close> for the error it throws.
\<close>

datatype jsError = ExecError string

type_synonym shell = "string \<Rightarrow> bool"

definition RNDC_PATH :: string where
  "RNDC_PATH = ''/usr/sbin/rndc''"

text \<open>The sync module's \<^verbatim>\<open>reloadBind9\<close>: reload, restart as fallback, rethrow.\<close>

definition reloadBind9 :: "shell \<Rightarrow> string list \<times> (jsError + unit)" where
  "reloadBind9 sh =
     (if sh (RNDC_PATH @ '' reload'') then ([RNDC_PATH @ '' reload''], Inr ())
      else if sh ''sudo service named restart''
        then ([RNDC_PATH @ '' reload'', ''sudo service named restart''], Inr ())
        else ([RNDC_PATH @ '' reload'', ''sudo service named restart''],
              Inl (ExecError ''sudo service named restart'')))"

text \<open>
  The method \<^verbatim>\<open>DNSLoadBalancerService.reloadBind9\<close>: one command, and a
  \<^verbatim>\<open>catch\<close> block that logs.
\<close>

definition service_reloadBind9 :: "shell \<Rightarrow> string list \<times> (jsError + unit)" where
  "service_reloadBind9 sh =
     (if sh ''rndc reload'' then ([''rndc reload''], Inr ())
      else ([''rndc reload''], Inr ()))"

text \<open>
  \<^verbatim>\<open>updateDNSRecords\<close>, called by the periodic cycle for each balancer: filter the
  healthy servers, return early when there is none, dispatch on the algorithm, reload.
  The whole body stands in a \<^verbatim>\<open>try\<close> whose \<^verbatim>\<open>catch\<close> logs. The result is the
  record table, the command lines run and the way the method ended.
\<close>

definition healthyOf :: "dnsServer list \<Rightarrow> dnsServer list" where
  "healthyOf ss =
     filter (\<lambda>s. case health s of None \<Rightarrow> False | Some h \<Rightarrow> status h = ''healthy'') ss"

definition updateDNSRecords ::
  "shell \<Rightarrow> dnsRecord list \<Rightarrow> string \<Rightarrow> nat \<Rightarrow> real \<Rightarrow> loadBalancer
     \<Rightarrow> dnsRecord list \<times> string list \<times> (jsError + unit)" where
  "updateDNSRecords sh table newId now mathRandom loadBalancer =
     (let healthyServers = healthyOf (servers loadBalancer) in
      if length healthyServers = 0 then (table, [], Inr ())
      else
        let table' =
              (if algorithm loadBalancer = ''round-robin''
                 then updateRoundRobinDNS table newId now loadBalancer healthyServers
               else if algorithm loadBalancer = ''weighted''
                 then updateWeightedDNS table newId mathRandom loadBalancer healthyServers
               else if algorithm loadBalancer = ''health-based''
                 then updateHealthBasedDNS table newId loadBalancer healthyServers
               else updateRoundRobinDNS table newId now loadBalancer healthyServers)
        in case service_reloadBind9 sh of
             (commands, Inr u) \<Rightarrow> (table', commands, Inr ())
           | (commands, Inl error) \<Rightarrow> (table', commands, Inr ()))"

section \<open>The scheduler (startHealthChecks, stopHealthChecks)\<close>

text \<open>
  The service object holds \<^verbatim>\<open>isRunning\<close> and the handle of its interval timer. The
  runtime around it holds the interval timers that are armed, the next handle
  \<^verbatim>\<open>setInterval\<close> gives out, and how many cycles have been performed.
  \<^verbatim>\<open>startHealthChecks\<close> suspends once, at \<^verbatim>\<open>await this.performHealthChecks()\<close>:
  \<open>startEnter\<close> is the part before the suspension (\<open>None\<close> when the guard returns),
  \<open>startResume\<close> the part after it.
\<close>

record runtime =
  isRunning :: bool
  healthCheckInterval :: "nat option"
  timers :: "nat list"
  nextHandle :: nat
  cycles :: nat

definition initialRuntime :: runtime where
  "initialRuntime =
     \<lparr>isRunning = False, healthCheckInterval = None, timers = [], nextHandle = 0, cycles = 0\<rparr>"

definition startEnter :: "runtime \<Rightarrow> runtime option" where
  "startEnter rt = (if isRunning rt then None else Some (rt\<lparr>isRunning := True\<rparr>))"

definition startResume :: "runtime \<Rightarrow> runtime" where
  "startResume rt =
     rt\<lparr>cycles := cycles rt + 1,
        healthCheckInterval := Some (nextHandle rt),
        timers := timers rt @ [nextHandle rt],
        nextHandle := nextHandle rt + 1\<rparr>"

definition startHealthChecks :: "runtime \<Rightarrow> runtime" where
  "startHealthChecks rt = (case startEnter rt of None \<Rightarrow> rt | Some rt' \<Rightarrow> startResume rt')"

definition stopHealthChecks :: "runtime \<Rightarrow> runtime" where
  "stopHealthChecks rt =
     (case healthCheckInterval rt of
        Some handle \<Rightarrow>
          rt\<lparr>timers := removeAll handle (timers rt), healthCheckInterval := None,
             isRunning := False\<rparr>
      | None \<Rightarrow> rt\<lparr>isRunning := False\<rparr>)"

section \<open>Zone synthesis (createZoneFile)\<close>

text \<open>Template literals print an integer in decimal.\<close>

function natToString :: "nat \<Rightarrow> string" where
  "natToString n =
     (if n < 10 then [''0123456789'' ! n]
      else natToString (n div 10) @ [''0123456789'' ! (n mod 10)])"
  by pat_completeness auto
termination
  by (relation "measure (\<lambda>n. n)") auto

declare natToString.simps [simp del]

definition intToString :: "int \<Rightarrow> string" where
  "intToString i = (if i < 0 then ''-'' @ natToString (nat (- i)) else natToString (nat i))"

abbreviation nl :: string where
  "nl \<equiv> [CHR 0x0A]"

definition zoneHeader :: "string \<Rightarrow> string" where
  "zoneHeader domainName =
     ''$TTL 86400'' @ nl
     @ ''@       IN      SOA     '' @ domainName @ ''. admin.'' @ domainName @ ''. ('' @ nl
     @ ''                        2023080701      ; Serial'' @ nl
     @ ''                        3600            ; Refresh'' @ nl
     @ ''                        1800            ; Retry'' @ nl
     @ ''                        1209600         ; Expire'' @ nl
     @ ''                        86400 )         ; Negative Cache TTL'' @ nl
     @ nl
     @ ''@       IN      NS      ns1.'' @ domainName @ ''.'' @ nl
     @ ''@       IN      A       127.0.0.1'' @ nl
     @ ''ns1     IN      A       127.0.0.1'' @ nl
     @ nl"

text \<open>
  The name of a record relative to the zone: \<open>None\<close> is the \<^verbatim>\<open>continue\<close> that skips
  a record of another domain.
\<close>

definition zoneRecordName :: "string \<Rightarrow> string \<Rightarrow> string option" where
  "zoneRecordName domainName recordName =
     (if recordName = domainName then Some ''@''
      else if endsWith recordName (''.'' @ domainName)
        then Some (replace recordName (''.'' @ domainName) [])
      else if includesJS recordName (''.'' @ domainName)
        then Some (replace recordName (''.'' @ domainName) [])
      else if includesJS recordName ''.'' \<and> \<not> endsWith recordName domainName then None
      else Some recordName)"

text \<open>The target of a \<^verbatim>\<open>CNAME\<close> record.\<close>

definition cnameTarget :: "string \<Rightarrow> string \<Rightarrow> string" where
  "cnameTarget domainName recordValue =
     (let target = (if endsWith recordValue (''.'' @ domainName)
                    then replace recordValue (''.'' @ domainName) [] else recordValue)
      in if \<not> endsWith target ''.'' then target @ ''.'' @ domainName @ ''.'' else target)"

text \<open>
  \<^verbatim>\<open>record.priority ? ` ${record.priority}` : ''\<close>: a null or zero number is falsy.
\<close>

definition optionalField :: "int option \<Rightarrow> string" where
  "optionalField x =
     (case x of None \<Rightarrow> [] | Some n \<Rightarrow> if n = 0 then [] else '' '' @ intToString n)"

definition mxPriority :: "int option \<Rightarrow> int" where
  "mxPriority x = (case x of None \<Rightarrow> 10 | Some n \<Rightarrow> if n = 0 then 10 else n)"

text \<open>The text one stored record adds to the zone (nothing when it is skipped).\<close>

definition recordLine :: "string \<Rightarrow> dnsRecord \<Rightarrow> string" where
  "recordLine domainName r =
     (if isLoadBalanced r then []
      else case zoneRecordName domainName (rec_name r) of
        None \<Rightarrow> []
      | Some recordName \<Rightarrow>
          if rec_type r = ''MX'' then
            recordName @ ''       IN      '' @ rec_type r @ ''     ''
              @ intToString (mxPriority (rec_priority r)) @ '' '' @ rec_value r @ nl
          else if rec_type r = ''CNAME'' then
            recordName @ ''       IN      '' @ rec_type r @ ''     ''
              @ cnameTarget domainName (rec_value r) @ nl
          else
            recordName @ ''       IN      '' @ rec_type r
              @ optionalField (rec_priority r) @ optionalField (rec_weight r)
              @ optionalField (rec_port r) @ ''     '' @ rec_value r @ nl)"

text \<open>
  The balancer part. \<open>zoneHealthy\<close> is the filter of \<^verbatim>\<open>createZoneFile\<close> (it also
  asks for an active server). \<open>aLine\<close> and \<open>srvLine\<close> are the two lines a balancer
  can add. The \<^verbatim>\<open>health-based\<close> case sorts \<^verbatim>\<open>healthyServers\<close> in place
  (\<^verbatim>\<open>Array.prototype.sort\<close> is stable), so the \<^verbatim>\<open>SRV\<close> loop that follows reads
  the sorted array: \<open>afterAlgorithm\<close> is the array that loop sees.
\<close>

definition zoneHealthy :: "dnsServer list \<Rightarrow> dnsServer list" where
  "zoneHealthy ss =
     filter (\<lambda>server. isActive server
        \<and> (case health server of None \<Rightarrow> False | Some h \<Rightarrow> status h = ''healthy'')) ss"

definition aLine :: "loadBalancer \<Rightarrow> dnsServer \<Rightarrow> string" where
  "aLine lb server = lb_name lb @ ''       IN      A       '' @ ip server @ nl"

definition responseTimeKey :: "dnsServer \<Rightarrow> int" where
  "responseTimeKey server = (case health server of None \<Rightarrow> 0 | Some h \<Rightarrow> responseTime h)"

definition recordCount :: "dnsServer \<Rightarrow> int" where
  "recordCount server = \<lfloor>binary64 (real_of_int (weight server) / 10)\<rfloor>"

definition afterAlgorithm :: "loadBalancer \<Rightarrow> dnsServer list \<Rightarrow> dnsServer list" where
  "afterAlgorithm lb healthyServers =
     (if algorithm lb = ''health-based'' then sort_key responseTimeKey healthyServers
      else healthyServers)"

definition algorithmRecords :: "loadBalancer \<Rightarrow> dnsServer list \<Rightarrow> string" where
  "algorithmRecords lb healthyServers =
     (if algorithm lb = ''round-robin'' then concat (map (aLine lb) healthyServers)
      else if algorithm lb = ''weighted'' then
        concat (map (\<lambda>server. concat (replicate (nat (recordCount server)) (aLine lb server)))
                  healthyServers)
      else if algorithm lb = ''health-based'' then
        concat (map (aLine lb) (take 3 (sort_key responseTimeKey healthyServers)))
      else [])"

definition srvWeight :: "nat \<Rightarrow> int" where
  "srvWeight n = \<lfloor>binary64 (binary64 (1 / real n) * 100)\<rfloor>"

definition srvLine :: "string \<Rightarrow> loadBalancer \<Rightarrow> nat \<Rightarrow> dnsServer \<Rightarrow> string" where
  "srvLine domainName lb n server =
     ''_'' @ lb_name lb @ ''._tcp.'' @ domainName @ ''.       IN      SRV     0 ''
       @ intToString (srvWeight n) @ '' '' @ intToString (port server) @ '' '' @ ip server @ nl"

definition srvRecords :: "string \<Rightarrow> loadBalancer \<Rightarrow> dnsServer list \<Rightarrow> string" where
  "srvRecords domainName lb healthyServers =
     (if length healthyServers > 1
      then concat (map (srvLine domainName lb (length healthyServers)) healthyServers)
      else [])"

definition balancerApplies :: "string \<Rightarrow> loadBalancer \<Rightarrow> bool" where
  "balancerApplies domainName lb =
     (lb_isActive lb \<and> lb_domainName lb = domainName \<and> length (servers lb) > 0)"

definition balancerRecords :: "string \<Rightarrow> loadBalancer \<Rightarrow> string" where
  "balancerRecords domainName lb =
     (if balancerApplies domainName lb then
        (let healthyServers = zoneHealthy (servers lb) in
         if length healthyServers = 0 then []
         else algorithmRecords lb healthyServers
              @ srvRecords domainName lb (afterAlgorithm lb healthyServers))
      else [])"

definition ZONE_DIR :: string where
  "ZONE_DIR = ''/etc/bind/zones''"

definition zoneContent :: "domain \<Rightarrow> loadBalancer list \<Rightarrow> string" where
  "zoneContent d loadBalancers =
     zoneHeader (domain_name d)
     @ concat (map (recordLine (domain_name d)) (records d))
     @ concat (map (balancerRecords (domain_name d)) loadBalancers)"

text \<open>\<^verbatim>\<open>createZoneFile\<close> writes the content to the zone file of the domain.\<close>

definition createZoneFile :: "domain \<Rightarrow> loadBalancer list \<Rightarrow> string \<times> string" where
  "createZoneFile d loadBalancers =
     (ZONE_DIR @ ''/'' @ domain_name d @ ''.zone'', zoneContent d loadBalancers)"

section \<open>Zone commit (syncBind9)\<close>

definition NAMED_CONF_LOCAL :: string where
  "NAMED_CONF_LOCAL = ''/etc/bind/named.conf.local''"

definition zoneStanza :: "domain \<Rightarrow> string" where
  "zoneStanza d =
     ''zone '' @ [CHR 0x22] @ domain_name d @ [CHR 0x22] @ '' {'' @ nl
     @ ''    type master;'' @ nl
     @ ''    file '' @ [CHR 0x22] @ ''/etc/bind/zones/'' @ domain_name d @ ''.zone''
       @ [CHR 0x22] @ '';'' @ nl
     @ ''    allow-update { none; };'' @ nl
     @ ''};'' @ nl
     @ nl"

definition updateNamedConfLocal :: "domain list \<Rightarrow> string \<times> string" where
  "updateNamedConfLocal domains =
     (NAMED_CONF_LOCAL,
      ''//'' @ nl
      @ ''// Do any local configuration here'' @ nl
      @ ''//'' @ nl
      @ nl
      @ ''// Consider adding the 1918 zones here, if they are not used in your'' @ nl
      @ ''// organization'' @ nl
      @ ''//include '' @ [CHR 0x22] @ ''/etc/bind/zones.rfc1918'' @ [CHR 0x22] @ '';'' @ nl
      @ nl
      @ concat (map zoneStanza domains))"

text \<open>
  \<^verbatim>\<open>syncBind9\<close>: one zone file per domain, the zone list, then the reload; its
  \<^verbatim>\<open>catch\<close> logs and rethrows. The result is the files written, the command lines
  run and the way the function ended. \<^verbatim>\<open>updateDNSLoadBalancerRecords\<close> awaits it and
  rethrows as well.
\<close>

definition syncBind9 ::
  "shell \<Rightarrow> domain list \<Rightarrow> loadBalancer list
     \<Rightarrow> (string \<times> string) list \<times> string list \<times> (jsError + unit)" where
  "syncBind9 sh domains loadBalancers =
     (let files = map (\<lambda>d. createZoneFile d loadBalancers) domains
                  @ [updateNamedConfLocal domains]
      in case reloadBind9 sh of
           (commands, Inr u) \<Rightarrow> (files, commands, Inr ())
         | (commands, Inl error) \<Rightarrow> (files, commands, Inl error))"

definition updateDNSLoadBalancerRecords ::
  "shell \<Rightarrow> domain list \<Rightarrow> loadBalancer list
     \<Rightarrow> (string \<times> string) list \<times> string list \<times> (jsError + unit)" where
  "updateDNSLoadBalancerRecords sh domains loadBalancers =
     (case syncBind9 sh domains loadBalancers of
        (files, commands, Inr u) \<Rightarrow> (files, commands, Inr ())
      | (files, commands, Inl error) \<Rightarrow> (files, commands, Inl error))"

section \<open>Rounding lemmas\<close>

lemma exponent2_bounds:
  "0 < x \<Longrightarrow> 2 powi exponent2 x \<le> x \<and> x < 2 powi (exponent2 x + 1)"
proof (induction x rule: exponent2.induct)
  case (1 x)
  show ?case
  proof (cases "2 \<le> x")
    case True
    with "1.prems" have e: "exponent2 x = exponent2 (x / 2) + 1"
      by (subst exponent2.simps) simp
    from True "1.prems" "1.IH"(1)
    have "2 powi exponent2 (x / 2) \<le> x / 2 \<and> x / 2 < 2 powi (exponent2 (x / 2) + 1)"
      by simp
    then show ?thesis unfolding e by (simp add: power_int_add)
  next
    case False
    show ?thesis
    proof (cases "x < 1")
      case True
      with False "1.prems" have e: "exponent2 x = exponent2 (x * 2) - 1"
        by (subst exponent2.simps) simp
      from True False "1.prems" "1.IH"(2)
      have "2 powi exponent2 (x * 2) \<le> x * 2 \<and> x * 2 < 2 powi (exponent2 (x * 2) + 1)"
        by simp
      then show ?thesis unfolding e by (simp add: power_int_add power_int_diff)
    next
      case notless: False
      with False "1.prems" have "exponent2 x = 0"
        by (subst exponent2.simps) simp
      with False notless show ?thesis by simp
    qed
  qed
qed

lemma roundEven_error: "\<bar>of_int (roundEven t) - t\<bar> \<le> 1 / 2"
  unfolding roundEven_def Let_def by (auto; linarith)

lemma roundEven_ge: "of_int k \<le> t \<Longrightarrow> k \<le> roundEven t"
proof -
  assume "of_int k \<le> t"
  then have "k \<le> \<lfloor>t\<rfloor>" by (simp add: le_floor_iff)
  moreover have "\<lfloor>t\<rfloor> \<le> roundEven t" by (simp add: roundEven_def Let_def)
  ultimately show ?thesis by simp
qed

lemma roundEven_le: "t \<le> of_int k \<Longrightarrow> roundEven t \<le> k"
proof -
  assume a: "t \<le> of_int k"
  show ?thesis
  proof (cases "t = of_int k")
    case True
    then show ?thesis by (simp add: roundEven_def)
  next
    case False
    with a have "t < of_int k" by simp
    then have "\<lfloor>t\<rfloor> < k" by (simp add: floor_less_iff)
    then have "\<lfloor>t\<rfloor> + 1 \<le> k" by simp
    moreover have "roundEven t \<le> \<lfloor>t\<rfloor> + 1" by (simp add: roundEven_def Let_def)
    ultimately show ?thesis by simp
  qed
qed

lemma binary64_pos:
  "0 < x \<Longrightarrow> binary64 x =
     of_int (roundEven (x * 2 powi (52 - exponent2 x))) * 2 powi (exponent2 x - 52)"
  by (simp add: binary64_def)

lemma binary64_error:
  assumes "0 < x"
  shows "\<bar>binary64 x - x\<bar> \<le> x / 2 ^ 53"
proof -
  let ?e = "exponent2 x"
  let ?s = "(2::real) powi (?e - 52)"
  let ?t = "x * 2 powi (52 - ?e)"
  have spos: "0 < ?s" by simp
  have inv: "(2::real) powi (52 - ?e) * ?s = 1"
    by (simp flip: power_int_add)
  have "binary64 x - x = (of_int (roundEven ?t) - ?t) * ?s"
    using inv by (simp add: binary64_pos assms algebra_simps)
  then have "\<bar>binary64 x - x\<bar> = \<bar>of_int (roundEven ?t) - ?t\<bar> * ?s"
    using spos by (simp add: abs_mult)
  also have "\<dots> \<le> 1 / 2 * ?s"
    using roundEven_error [of ?t] spos by (intro mult_right_mono) simp_all
  also have "\<dots> = 2 powi ?e / 2 ^ 53"
    by (simp add: power_int_diff)
  also have "\<dots> \<le> x / 2 ^ 53"
    using exponent2_bounds [OF assms] by (simp add: divide_right_mono)
  finally show ?thesis .
qed

lemma exponent2_le_52:
  assumes "0 < x" "x < 2 ^ 53"
  shows "exponent2 x \<le> 52"
proof -
  from exponent2_bounds [OF assms(1)] assms(2)
  have "(2::real) powi exponent2 x < 2 powi (53::int)"
    by simp
  then have "exponent2 x < 53"
    by (rule power_int_le_imp_less_exp [rotated]) simp_all
  then show ?thesis by simp
qed

lemma binary64_ge_int:
  assumes "0 < x" "x < 2 ^ 53" "of_int k \<le> x"
  shows "of_int k \<le> binary64 x"
proof -
  let ?e = "exponent2 x"
  let ?n = "nat (52 - ?e)"
  from exponent2_le_52 [OF assms(1,2)] have n: "52 - ?e = int ?n" by simp
  have p: "(2::real) powi (52 - ?e) = 2 ^ ?n" by (subst n) (rule power_int_of_nat)
  have q: "(2::real) powi (?e - 52) = 1 / 2 ^ ?n"
    using n by (metis minus_diff_eq power_int_minus power_int_of_nat inverse_eq_divide)
  have "of_int (k * 2 ^ ?n) \<le> x * 2 powi (52 - ?e)"
    using assms(3) by (simp add: p)
  then have "k * 2 ^ ?n \<le> roundEven (x * 2 powi (52 - ?e))"
    by (rule roundEven_ge)
  then have "real_of_int (k * 2 ^ ?n) \<le> of_int (roundEven (x * 2 powi (52 - ?e)))"
    by linarith
  then show ?thesis
    by (simp add: binary64_pos assms(1) q pos_le_divide_eq)
qed

lemma binary64_le_int:
  assumes "0 < x" "x < 2 ^ 53" "x \<le> of_int k"
  shows "binary64 x \<le> of_int k"
proof -
  let ?e = "exponent2 x"
  let ?n = "nat (52 - ?e)"
  from exponent2_le_52 [OF assms(1,2)] have n: "52 - ?e = int ?n" by simp
  have p: "(2::real) powi (52 - ?e) = 2 ^ ?n" by (subst n) (rule power_int_of_nat)
  have q: "(2::real) powi (?e - 52) = 1 / 2 ^ ?n"
    using n by (metis minus_diff_eq power_int_minus power_int_of_nat inverse_eq_divide)
  have "x * 2 powi (52 - ?e) \<le> of_int (k * 2 ^ ?n)"
    using assms(3) by (simp add: p)
  then have "roundEven (x * 2 powi (52 - ?e)) \<le> k * 2 ^ ?n"
    by (rule roundEven_le)
  then have "real_of_int (roundEven (x * 2 powi (52 - ?e))) \<le> of_int (k * 2 ^ ?n)"
    by linarith
  then show ?thesis
    by (simp add: binary64_pos assms(1) q pos_divide_le_eq)
qed

lemma binary64_reciprocal_divisor:
  "n \<in> {2, 4, 5, 10, 20, 25, 50, 100::nat} \<Longrightarrow> 1 / real n \<le> binary64 (1 / real n)"
  by (elim insertE emptyE) (simp_all add: binary64_def exponent2.simps roundEven_def)

lemma divisors_100_list:
  "filter (\<lambda>i. i dvd 100) [2..<101] = [2, 4, 5, 10, 20, 25, 50, 100::nat]"
  by code_simp

lemma divisors_100:
  assumes "n dvd 100" "2 \<le> n"
  shows "n \<in> {2, 4, 5, 10, 20, 25, 50, 100::nat}"
proof -
  from assms(1) have "n \<le> 100" by (simp add: dvd_imp_le)
  with assms(2) have "n \<in> {2..<101}" by simp
  then have "n \<in> set [2..<101]" by (simp only: set_upt)
  with assms(1) have "n \<in> set (filter (\<lambda>i. i dvd 100) [2..<101])"
    unfolding set_filter by blast
  then show ?thesis unfolding divisors_100_list by simp
qed

lemma binary64_relative:
  assumes "0 < x"
  shows "x * (1 - 1 / 1000) \<le> binary64 x \<and> binary64 x \<le> x * (1 + 1 / 1000)"
proof -
  have "x / 2 ^ 53 \<le> x / 1000" using assms by (intro divide_left_mono) simp_all
  with binary64_error [OF assms]
  have "x - binary64 x \<le> x / 1000" and "binary64 x - x \<le> x / 1000" by linarith+
  then show ?thesis by (simp add: distrib_left right_diff_distrib)
qed

lemma srvWeight_floor:
  assumes "2 \<le> n"
  shows "srvWeight n = 100 div int n"
proof -
  define q where "q = binary64 (1 / real n)"
  define r where "r = binary64 (q * 100)"
  define k where "k = 100 div int n"
  define m where "m = 100 mod int n"
  from assms have npos: "0 < real n" by simp
  then have xpos: "0 < 1 / real n" by simp
  from binary64_relative [OF xpos]
  have qlow: "(1 / real n) * (1 - 1 / 1000) \<le> q" and qup: "q \<le> (1 / real n) * (1 + 1 / 1000)"
    by (simp_all add: q_def)
  have "0 < (1 / real n) * (1 - 1 / 1000)" using xpos by simp
  with qlow have qpos: "0 < q" by linarith
  then have ppos: "0 < q * 100" by simp
  from binary64_relative [OF ppos]
  have rlow: "(q * 100) * (1 - 1 / 1000) \<le> r" and rup: "r \<le> (q * 100) * (1 + 1 / 1000)"
    by (simp_all add: r_def)
  have qn_up: "q * real n \<le> 1 + 1 / 1000"
  proof -
    from qup npos have "q * real n \<le> ((1 / real n) * (1 + 1 / 1000)) * real n"
      by (intro mult_right_mono) simp_all
    with npos show ?thesis by simp
  qed
  have qn_low: "1 - 1 / 1000 \<le> q * real n"
  proof -
    from qlow npos have "((1 / real n) * (1 - 1 / 1000)) * real n \<le> q * real n"
      by (intro mult_right_mono) simp_all
    with npos show ?thesis by simp
  qed
  have rn_up: "r * real n < 101"
  proof -
    from rup npos have "r * real n \<le> ((q * 100) * (1 + 1 / 1000)) * real n"
      by (intro mult_right_mono) simp_all
    also have "\<dots> = (q * real n) * (100 * (1 + 1 / 1000))" by simp
    also from qn_up have "\<dots> \<le> (1 + 1 / 1000) * (100 * (1 + 1 / 1000))"
      by (intro mult_right_mono) simp_all
    also have "\<dots> < 101" by simp
    finally show ?thesis .
  qed
  have rn_low: "99 < r * real n"
  proof -
    have "(99::real) < (1 - 1 / 1000) * (100 * (1 - 1 / 1000))" by simp
    also from qn_low have "\<dots> \<le> (q * real n) * (100 * (1 - 1 / 1000))"
      by (intro mult_right_mono) simp_all
    also have "\<dots> = ((q * 100) * (1 - 1 / 1000)) * real n" by simp
    also from rlow npos have "\<dots> \<le> r * real n"
      by (intro mult_right_mono) simp_all
    finally show ?thesis .
  qed
  have split: "100 = k * int n + m" by (simp add: k_def m_def)
  from assms have mbounds: "0 \<le> m" "m < int n" by (simp_all add: m_def)
  have upper: "r < of_int k + 1"
  proof -
    from split mbounds assms have "101 \<le> k * int n + int n"
      by (cases "m = 0") simp_all
    then have "101 \<le> (k + 1) * int n" by (simp add: algebra_simps)
    then have "(101::real) \<le> of_int ((k + 1) * int n)" by linarith
    with rn_up have "r * real n < (of_int k + 1) * real n" by simp
    with npos show ?thesis by simp
  qed
  have lower: "of_int k \<le> r"
  proof (cases "m = 0")
    case False
    with split mbounds have "k * int n \<le> 99" by linarith
    then have "real_of_int (k * int n) \<le> 99" by linarith
    with rn_low have "of_int k * real n < r * real n" by simp
    with npos show ?thesis by simp
  next
    case True
    then have "int n dvd 100" by (simp add: m_def dvd_eq_mod_eq_0)
    then have "int n dvd int 100" by simp
    then have "n dvd 100" by (simp only: int_dvd_int_iff)
    from binary64_reciprocal_divisor [OF divisors_100 [OF this assms]]
    have "1 / real n * 100 \<le> q * 100" by (simp add: q_def)
    moreover from True split have "real_of_int (k * int n) = 100" by simp
    then have "real_of_int k * real n = 100" by simp
    then have "real_of_int k = 1 / real n * 100" using npos by (simp add: field_simps)
    ultimately have kp: "of_int k \<le> q * 100" by simp
    have "q * 100 < 2 ^ 53"
    proof -
      from assms have "q * 2 \<le> q * real n" using qpos by simp
      with qn_up show ?thesis by simp
    qed
    from binary64_ge_int [OF ppos this kp] show ?thesis by (simp add: r_def)
  qed
  from lower upper have "\<lfloor>r\<rfloor> = k" by (simp add: floor_unique)
  then show ?thesis by (simp add: srvWeight_def r_def q_def k_def)
qed

lemma binary64_nonpos: "x \<le> 0 \<Longrightarrow> binary64 x \<le> 0"
proof -
  assume "x \<le> 0"
  have "0 \<le> \<bar>x\<bar> * 2 powi (52 - exponent2 \<bar>x\<bar>)" by simp
  then have "0 \<le> roundEven (\<bar>x\<bar> * 2 powi (52 - exponent2 \<bar>x\<bar>))"
    using roundEven_ge [of 0] by simp
  then have "0 \<le> real_of_int (roundEven (\<bar>x\<bar> * 2 powi (52 - exponent2 \<bar>x\<bar>)))
                  * 2 powi (exponent2 \<bar>x\<bar> - 52)"
    by simp
  with \<open>x \<le> 0\<close> show ?thesis
    by (cases "x = 0") (simp_all add: binary64_def mult_le_0_iff)
qed

lemma binary64_tenth_floor:
  assumes "0 \<le> w" "w < 2 ^ 53"
  shows "\<lfloor>binary64 (real_of_int w / 10)\<rfloor> = w div 10"
proof (cases "w = 0")
  case True
  then show ?thesis by (simp add: binary64_def)
next
  case False
  define x where "x = real_of_int w / 10"
  define k where "k = w div 10"
  define m where "m = w mod 10"
  from False assms have xpos: "0 < x" by (simp add: x_def)
  from assms have xlt: "x < 2 ^ 53" by (simp add: x_def)
  have split: "w = 10 * k + m" by (simp add: k_def m_def)
  have mb: "0 \<le> m" "m \<le> 9" by (simp_all add: m_def)
  from split have xkm: "x = of_int k + of_int m / 10" by (simp add: x_def)
  have "of_int k \<le> binary64 x \<and> binary64 x < of_int k + 1"
  proof (cases "m = 0")
    case True
    with xkm have "x = of_int k" by simp
    with binary64_ge_int [OF xpos xlt, of k] binary64_le_int [OF xpos xlt, of k]
    show ?thesis by simp
  next
    case False
    with mb have m1: "1 \<le> m" by simp
    have lo: "of_int k \<le> binary64 x"
    proof -
      from m1 xkm have "of_int k \<le> x" by simp
      from binary64_ge_int [OF xpos xlt this] show ?thesis .
    qed
    have hi: "binary64 x < of_int k + 1"
    proof -
      from mb xkm have "x \<le> of_int k + 9 / 10" by simp
      moreover from assms have "x * 10 < 2 ^ 53" by (simp add: x_def)
      then have "x / 2 ^ 53 < 1 / 10" by simp
      with binary64_error [OF xpos] have "binary64 x < x + 1 / 10" by linarith
      ultimately show ?thesis by linarith
    qed
    from lo hi show ?thesis by simp
  qed
  then show ?thesis by (simp add: x_def k_def floor_unique)
qed

lemma binary64_zero: "binary64 0 = 0"
  by (simp add: binary64_def)

lemma binary64_minus: "binary64 (- x) = - binary64 x"
  by (simp add: binary64_def sgn_minus)

lemma roundEven_of_int: "roundEven (of_int m) = m"
  by (simp add: roundEven_def)

lemma exponent2_unique:
  assumes "0 < y" "2 powi k \<le> y" "y < 2 powi (k + 1)"
  shows "exponent2 y = k"
proof (rule ccontr)
  assume ne: "exponent2 y \<noteq> k"
  from exponent2_bounds [OF assms(1)]
  have b: "2 powi exponent2 y \<le> y" "y < 2 powi (exponent2 y + 1)" by simp_all
  show False
  proof (cases "exponent2 y < k")
    case True
    then have "(2::real) powi (exponent2 y + 1) \<le> 2 powi k"
      by (intro power_int_increasing) simp_all
    with b(2) assms(2) show False by linarith
  next
    case False
    with ne have "k + 1 \<le> exponent2 y" by simp
    then have "(2::real) powi (k + 1) \<le> 2 powi exponent2 y"
      by (intro power_int_increasing) simp_all
    with b(1) assms(3) show False by linarith
  qed
qed

lemma mantissa_bounds:
  assumes "0 < x"
  shows "2 ^ 52 \<le> roundEven (x * 2 powi (52 - exponent2 x))
         \<and> roundEven (x * 2 powi (52 - exponent2 x)) \<le> 2 ^ 53"
proof -
  let ?e = "exponent2 x"
  let ?t = "x * 2 powi (52 - ?e)"
  from exponent2_bounds [OF assms]
  have b: "2 powi ?e \<le> x" "x < 2 powi (?e + 1)" by simp_all
  have s: "(0::real) < 2 powi (52 - ?e)" by simp
  have "2 powi ?e * 2 powi (52 - ?e) \<le> ?t"
    using b(1) s by (intro mult_right_mono) simp_all
  then have lo: "real_of_int (2 ^ 52) \<le> ?t"
    by (simp flip: power_int_add)
  have "?t \<le> 2 powi (?e + 1) * 2 powi (52 - ?e)"
    using b(2) s by (intro mult_right_mono) simp_all
  then have hi: "?t \<le> real_of_int (2 ^ 53)"
    by (simp flip: power_int_add)
  from roundEven_ge [OF lo] roundEven_le [OF hi] show ?thesis by simp
qed

lemma binary64_fixed_scaled:
  assumes "2 ^ 52 \<le> m" "m \<le> 2 ^ 53"
  shows "binary64 (of_int m * 2 powi (e - 52)) = of_int m * 2 powi (e - 52)"
proof -
  let ?y = "real_of_int m * 2 powi (e - 52)"
  from assms have "0 < m" by simp
  then have mpos: "0 < real_of_int m" by simp
  then have ypos: "0 < ?y" by simp
  show ?thesis
  proof (cases "m = 2 ^ 53")
    case False
    with assms have "m < 2 ^ 53" by simp
    then have "real_of_int m < of_int (2 ^ 53)" by (simp only: of_int_less_iff)
    then have m: "real_of_int m < 2 ^ 53" by simp
    from assms(1) have "real_of_int (2 ^ 52) \<le> of_int m" by (simp only: of_int_le_iff)
    then have m2: "(2::real) ^ 52 \<le> real_of_int m" by simp
    have "2 powi e = (2::real) ^ 52 * 2 powi (e - 52)"
      by (simp add: power_int_diff)
    also have "\<dots> \<le> ?y" using m2 by (intro mult_right_mono) simp_all
    finally have lo: "2 powi e \<le> ?y" .
    have "?y < 2 ^ 53 * 2 powi (e - 52)" using m by (intro mult_strict_right_mono) simp_all
    also have "\<dots> = 2 powi (e + 1)" by (simp add: power_int_diff power_int_add)
    finally have hi: "?y < 2 powi (e + 1)" .
    from exponent2_unique [OF ypos lo hi] have ex: "exponent2 ?y = e" .
    have one: "2 powi (e - 52) * 2 powi (52 - e) = (1::real)"
      by (simp flip: power_int_add)
    have sc: "?y * 2 powi (52 - e) = of_int m"
      unfolding mult.assoc one by simp
    have "binary64 ?y =
        of_int (roundEven (?y * 2 powi (52 - exponent2 ?y))) * 2 powi (exponent2 ?y - 52)"
      by (rule binary64_pos [OF ypos])
    also have "\<dots> = of_int (roundEven (of_int m)) * 2 powi (e - 52)"
      unfolding ex sc ..
    finally show ?thesis by (simp only: roundEven_of_int)
  next
    case True
    have y: "?y = 2 powi (e + 1)" by (simp add: True power_int_diff power_int_add)
    have lo: "2 powi (e + 1) \<le> ?y" by (simp add: y)
    have hi: "?y < 2 powi (e + 1 + 1)" unfolding y
      by (intro power_int_strict_increasing) simp_all
    from exponent2_unique [OF ypos lo hi] have ex: "exponent2 ?y = e + 1" .
    have sc: "?y * 2 powi (52 - (e + 1)) = of_int (2 ^ 52)"
      unfolding y by (simp flip: power_int_add)
    have "binary64 ?y =
        of_int (roundEven (?y * 2 powi (52 - exponent2 ?y))) * 2 powi (exponent2 ?y - 52)"
      by (rule binary64_pos [OF ypos])
    also have "\<dots> = of_int (roundEven (of_int (2 ^ 52))) * 2 powi (e + 1 - 52)"
      unfolding ex sc ..
    also have "\<dots> = 2 powi (e + 1)"
      by (simp only: roundEven_of_int) (simp add: power_int_diff power_int_add)
    finally show ?thesis by (simp only: y)
  qed
qed

lemma binary64_idem_pos: "0 < x \<Longrightarrow> binary64 (binary64 x) = binary64 x"
  using mantissa_bounds [of x] binary64_fixed_scaled [of "roundEven (x * 2 powi (52 - exponent2 x))" "exponent2 x"]
  by (simp add: binary64_pos)

lemma binary64_idem: "binary64 (binary64 x) = binary64 x"
proof (cases "0 < x")
  case True
  then show ?thesis by (rule binary64_idem_pos)
next
  case False
  show ?thesis
  proof (cases "x = 0")
    case True
    then show ?thesis by (simp add: binary64_zero)
  next
    case nz: False
    with False have "0 < - x" by simp
    from binary64_idem_pos [OF this] show ?thesis by (simp add: binary64_minus)
  qed
qed

lemma binary64_positive: "0 < x \<Longrightarrow> 0 < binary64 x"
  using mantissa_bounds [of x] by (simp add: binary64_pos)

lemma binary64_of_int:
  assumes "\<bar>k\<bar> < 2 ^ 53"
  shows "binary64 (of_int k) = of_int k"
proof -
  have pos: "binary64 (of_int j) = of_int j" if "0 < j" "j < 2 ^ 53" for j :: int
  proof -
    from that(1) have p: "0 < real_of_int j" by simp
    from that(2) have "real_of_int j < of_int (2 ^ 53)" by (simp only: of_int_less_iff)
    then have l: "real_of_int j < 2 ^ 53" by simp
    from binary64_ge_int [OF p l, of j] binary64_le_int [OF p l, of j] show ?thesis by simp
  qed
  show ?thesis
  proof (cases "0 < k")
    case True
    with assms show ?thesis by (intro pos) simp_all
  next
    case False
    show ?thesis
    proof (cases "k = 0")
      case True
      then show ?thesis by (simp add: binary64_zero)
    next
      case nz: False
      with False assms have "0 < - k" "- k < 2 ^ 53" by simp_all
      from pos [OF this] show ?thesis by (simp add: binary64_minus)
    qed
  qed
qed

lemma binary64_numeral:
  "(numeral n :: real) < 2 ^ 53 \<Longrightarrow> binary64 (numeral n) = numeral n"
  using binary64_of_int [of "numeral n"] by simp

section \<open>Status determination\<close>

lemma determineOverallStatus_statusPolicy:
  "determineOverallStatus pingResult portResult =
     statusPolicy (status pingResult = ''healthy'') (status portResult = ''healthy'')
       (status portResult = ''unknown'')"
  by (simp add: determineOverallStatus_def statusPolicy_def)

lemma determineOverallStatus_cases:
  "determineOverallStatus pingResult portResult = ''healthy''
   \<or> determineOverallStatus pingResult portResult = ''degraded''
   \<or> determineOverallStatus pingResult portResult = ''unhealthy''"
  by (simp add: determineOverallStatus_def)

lemma pingTest_metricsSample [simp]: "pingTest (w\<lparr>metricsSample := x\<rparr>) = pingTest w"
  by (simp add: pingTest_def split: option.split)

lemma portCheck_metricsSample [simp]: "portCheck (w\<lparr>metricsSample := x\<rparr>) portNo = portCheck w portNo"
  by (simp add: portCheck_def dnsHealthCheck_def httpHealthCheck_def split: option.split)

lemma checkServerHealth_status:
  "status (checkServerHealth (w\<lparr>metricsSample := Some m\<rparr>) portNo) =
     determineOverallStatus (pingTest w) (portCheck w portNo)"
  by (simp add: checkServerHealth_def Let_def)

text \<open>
  C5. For every pair of ping and port probe outcomes the composite status follows the
  ordered policy (ping reachable and port reachable or inapplicable: healthy; ping
  reachable and port unreachable: degraded; ping unreachable and port reachable:
  degraded; otherwise unhealthy), the status returned by the evaluation on its
  non-exception path is that composite status, and it is always one of the three values.
\<close>

theorem determineOverallStatus_policy:
  "determineOverallStatus pingResult portResult =
     statusPolicy (status pingResult = ''healthy'') (status portResult = ''healthy'')
       (status portResult = ''unknown'')
   \<and> status (checkServerHealth (w\<lparr>metricsSample := Some m\<rparr>) portNo) =
     statusPolicy (status (pingTest w) = ''healthy'') (status (portCheck w portNo) = ''healthy'')
       (status (portCheck w portNo) = ''unknown'')
   \<and> (status (checkServerHealth (w\<lparr>metricsSample := Some m\<rparr>) portNo) = ''healthy''
      \<or> status (checkServerHealth (w\<lparr>metricsSample := Some m\<rparr>) portNo) = ''degraded''
      \<or> status (checkServerHealth (w\<lparr>metricsSample := Some m\<rparr>) portNo) = ''unhealthy'')"
  unfolding checkServerHealth_status
  using determineOverallStatus_statusPolicy determineOverallStatus_cases by blast

section \<open>Port 53\<close>

lemma checkServerHealth_responseTime:
  "responseTime (checkServerHealth (w\<lparr>metricsSample := Some m\<rparr>) portNo) =
     responseTime (portCheck w portNo)"
  by (simp add: checkServerHealth_def Let_def)

text \<open>
  C9. For a server registered with port 53 the port check is \<^verbatim>\<open>dnsHealthCheck\<close>,
  which reports \<^verbatim>\<open>healthy\<close> whatever the world answers, with the time between its two
  clock readings as response time. So on the non-exception path the composite status is
  \<^verbatim>\<open>healthy\<close> when the ping succeeds and \<^verbatim>\<open>degraded\<close> when it fails, never
  \<^verbatim>\<open>unhealthy\<close>.
\<close>

theorem port53_never_unhealthy:
  "portCheck w 53 = \<lparr>status = ''healthy'', responseTime = dnsElapsed w\<rparr>
   \<and> responseTime (checkServerHealth (w\<lparr>metricsSample := Some m\<rparr>) 53) = dnsElapsed w
   \<and> status (checkServerHealth (w\<lparr>metricsSample := Some m\<rparr>) 53) =
       (if status (pingTest w) = ''healthy'' then ''healthy'' else ''degraded'')
   \<and> status (checkServerHealth (w\<lparr>metricsSample := Some m\<rparr>) 53) \<noteq> ''unhealthy''"
  by (simp add: checkServerHealth_status checkServerHealth_responseTime portCheck_def
      dnsHealthCheck_def determineOverallStatus_def)

section \<open>CNAME targets\<close>

lemma endsWith_single: "endsWith s [c] \<longleftrightarrow> s \<noteq> [] \<and> last s = c"
  by (cases s rule: rev_cases) (simp_all add: endsWith_def)

lemma cnameTarget_endsWith_dot: "endsWith (cnameTarget d v) ''.''"
  by (simp add: cnameTarget_def Let_def endsWith_def)

lemma recordLine_CNAME:
  "\<not> isLoadBalanced c \<Longrightarrow> rec_type c = ''CNAME'' \<Longrightarrow>
     zoneRecordName d (rec_name c) = Some n \<Longrightarrow>
     recordLine d c = n @ ''       IN      CNAME     '' @ cnameTarget d (rec_value c) @ nl"
  by (simp add: recordLine_def)

text \<open>
  C6. For the domain \<^verbatim>\<open>example.com\<close> the value \<^verbatim>\<open>foo\<close> gives the target
  \<^verbatim>\<open>foo.example.com.\<close>, the value \<^verbatim>\<open>foo.example.com\<close> gives the same target, and
  \<^verbatim>\<open>bar.example.com.\<close> is left unchanged. For every domain and value the target ends
  in a dot, and it is the target written on the line of every \<^verbatim>\<open>CNAME\<close> record that
  the zone emits, whatever the record's name (also shown for a record at the apex).
\<close>

theorem cnameTarget_fully_qualified:
  "cnameTarget ''example.com'' ''foo'' = ''foo.example.com.''
   \<and> cnameTarget ''example.com'' ''foo.example.com'' = ''foo.example.com.''
   \<and> cnameTarget ''example.com'' ''bar.example.com.'' = ''bar.example.com.''
   \<and> endsWith (cnameTarget d v) ''.''
   \<and> cnameTarget d v \<noteq> [] \<and> last (cnameTarget d v) = CHR ''.''
   \<and> (\<not> isLoadBalanced c \<and> rec_type c = ''CNAME''
        \<and> zoneRecordName d (rec_name c) = Some n \<longrightarrow>
      recordLine d c =
        n @ ''       IN      CNAME     '' @ cnameTarget d (rec_value c) @ nl)
   \<and> recordLine d
        (r\<lparr>isLoadBalanced := False, rec_name := d, rec_type := ''CNAME'', rec_value := v\<rparr>) =
       ''@       IN      CNAME     '' @ cnameTarget d v @ nl"
proof -
  have e1: "cnameTarget ''example.com'' ''foo'' = ''foo.example.com.''"
    by code_simp
  have e2: "cnameTarget ''example.com'' ''foo.example.com'' = ''foo.example.com.''"
    by code_simp
  have e3: "cnameTarget ''example.com'' ''bar.example.com.'' = ''bar.example.com.''"
    by code_simp
  have line: "recordLine d
        (r\<lparr>isLoadBalanced := False, rec_name := d, rec_type := ''CNAME'', rec_value := v\<rparr>) =
       ''@       IN      CNAME     '' @ cnameTarget d v @ nl"
    by (simp add: recordLine_def zoneRecordName_def)
  have general: "\<not> isLoadBalanced c \<and> rec_type c = ''CNAME''
        \<and> zoneRecordName d (rec_name c) = Some n \<longrightarrow>
      recordLine d c =
        n @ ''       IN      CNAME     '' @ cnameTarget d (rec_value c) @ nl"
    using recordLine_CNAME [of c d n] by blast
  from cnameTarget_endsWith_dot [of d v]
  have dot: "endsWith (cnameTarget d v) ''.''"
    and ne: "cnameTarget d v \<noteq> []" and l: "last (cnameTarget d v) = CHR ''.''"
    by (simp_all add: endsWith_single)
  from e1 e2 e3 dot ne l general line show ?thesis by blast
qed

theorem cnameTarget_fully_qualified_witness:
  "\<not> isLoadBalanced
       \<lparr>rec_id = ''r1'', rec_domainId = ''d1'', rec_name = ''www.example.com'',
        rec_type = ''CNAME'', rec_value = ''foo'', rec_ttl = 300, rec_priority = None,
        rec_weight = None, rec_port = None, isLoadBalanced = False, loadBalancerId = None\<rparr>
   \<and> zoneRecordName ''example.com'' ''www.example.com'' = Some ''www''
   \<and> recordLine ''example.com''
       \<lparr>rec_id = ''r1'', rec_domainId = ''d1'', rec_name = ''www.example.com'',
        rec_type = ''CNAME'', rec_value = ''foo'', rec_ttl = 300, rec_priority = None,
        rec_weight = None, rec_port = None, isLoadBalanced = False, loadBalancerId = None\<rparr>
     = ''www       IN      CNAME     foo.example.com.'' @ nl
   \<and> recordLine ''example.com''
       \<lparr>rec_id = ''r2'', rec_domainId = ''d1'', rec_name = ''www'',
        rec_type = ''CNAME'', rec_value = ''foo.example.com'', rec_ttl = 300,
        rec_priority = None, rec_weight = None, rec_port = None, isLoadBalanced = False,
        loadBalancerId = None\<rparr>
     = ''www       IN      CNAME     foo.example.com.'' @ nl
   \<and> recordLine ''example.com''
       \<lparr>rec_id = ''r3'', rec_domainId = ''d1'', rec_name = ''www'',
        rec_type = ''CNAME'', rec_value = ''bar.example.com.'', rec_ttl = 300,
        rec_priority = None, rec_weight = None, rec_port = None, isLoadBalanced = False,
        loadBalancerId = None\<rparr>
     = ''www       IN      CNAME     bar.example.com.'' @ nl"
proof -
  define c1 where "c1 = \<lparr>rec_id = ''r1'', rec_domainId = ''d1'', rec_name = ''www.example.com'',
        rec_type = ''CNAME'', rec_value = ''foo'', rec_ttl = 300, rec_priority = None,
        rec_weight = None, rec_port = None, isLoadBalanced = False, loadBalancerId = None\<rparr>"
  define c2 where "c2 = \<lparr>rec_id = ''r2'', rec_domainId = ''d1'', rec_name = ''www'',
        rec_type = ''CNAME'', rec_value = ''foo.example.com'', rec_ttl = 300,
        rec_priority = None, rec_weight = None, rec_port = None, isLoadBalanced = False,
        loadBalancerId = None\<rparr>"
  define c3 where "c3 = \<lparr>rec_id = ''r3'', rec_domainId = ''d1'', rec_name = ''www'',
        rec_type = ''CNAME'', rec_value = ''bar.example.com.'', rec_ttl = 300,
        rec_priority = None, rec_weight = None, rec_port = None, isLoadBalanced = False,
        loadBalancerId = None\<rparr>"
  have n1: "zoneRecordName ''example.com'' ''www.example.com'' = Some ''www''" by code_simp
  have n2: "zoneRecordName ''example.com'' ''www'' = Some ''www''" by code_simp
  have f1: "\<not> isLoadBalanced c1 \<and> rec_type c1 = ''CNAME''
      \<and> zoneRecordName ''example.com'' (rec_name c1) = Some ''www''"
    by (simp add: c1_def n1)
  have f2: "\<not> isLoadBalanced c2 \<and> rec_type c2 = ''CNAME''
      \<and> zoneRecordName ''example.com'' (rec_name c2) = Some ''www''"
    by (simp add: c2_def n2)
  have f3: "\<not> isLoadBalanced c3 \<and> rec_type c3 = ''CNAME''
      \<and> zoneRecordName ''example.com'' (rec_name c3) = Some ''www''"
    by (simp add: c3_def n2)
  have v: "rec_value c1 = ''foo''" "rec_value c2 = ''foo.example.com''"
    "rec_value c3 = ''bar.example.com.''"
    by (simp_all add: c1_def c2_def c3_def)
  note t1 = cnameTarget_fully_qualified [where d = "''example.com''" and c = c1 and n = "''www''"]
  note t2 = cnameTarget_fully_qualified [where d = "''example.com''" and c = c2 and n = "''www''"]
  note t3 = cnameTarget_fully_qualified [where d = "''example.com''" and c = c3 and n = "''www''"]
  have g: "A \<and> B \<and> C \<and> D \<and> E \<and> F \<and> (P \<longrightarrow> Q) \<and> R \<Longrightarrow> P \<Longrightarrow> A \<and> B \<and> C \<and> Q"
    for A B C D E F P Q R by blast
  from g [OF t1 f1] have l1: "recordLine ''example.com'' c1 =
      ''www       IN      CNAME     foo.example.com.'' @ nl"
    by (simp add: v)
  from g [OF t2 f2] have l2: "recordLine ''example.com'' c2 =
      ''www       IN      CNAME     foo.example.com.'' @ nl"
    by (simp add: v)
  from g [OF t3 f3] have l3: "recordLine ''example.com'' c3 =
      ''www       IN      CNAME     bar.example.com.'' @ nl"
    by (simp add: v)
  from f1 n1 l1 l2 l3 show ?thesis
    unfolding c1_def c2_def c3_def by blast
qed

section \<open>Scheduler boundaries\<close>

text \<open>
  C8. Start is idempotent: a call of \<^verbatim>\<open>startHealthChecks\<close> while the service is
  running returns at once and changes nothing, so two starts in succession arm exactly
  one interval timer; this also holds for a second call made while the first one is
  suspended in its first cycle. A call of \<^verbatim>\<open>stopHealthChecks\<close> before any start
  leaves the service stopped with no timer.
\<close>

theorem scheduler_idempotent:
  "startHealthChecks (rt\<lparr>isRunning := True\<rparr>) = rt\<lparr>isRunning := True\<rparr>
   \<and> startHealthChecks (startHealthChecks (rt\<lparr>isRunning := False\<rparr>)) =
       startHealthChecks (rt\<lparr>isRunning := False\<rparr>)
   \<and> timers (startHealthChecks (startHealthChecks (rt\<lparr>isRunning := False\<rparr>))) =
       timers rt @ [nextHandle rt]
   \<and> timers (startHealthChecks (startHealthChecks initialRuntime)) = [0]
   \<and> isRunning (startHealthChecks initialRuntime)
   \<and> healthCheckInterval (startHealthChecks initialRuntime) = Some 0
   \<and> startEnter initialRuntime = Some (initialRuntime\<lparr>isRunning := True\<rparr>)
   \<and> startEnter (initialRuntime\<lparr>isRunning := True\<rparr>) = None
   \<and> timers (startResume (startHealthChecks (initialRuntime\<lparr>isRunning := True\<rparr>))) = [0]
   \<and> stopHealthChecks initialRuntime = initialRuntime
   \<and> stopHealthChecks (rt\<lparr>healthCheckInterval := None\<rparr>) =
       rt\<lparr>healthCheckInterval := None, isRunning := False\<rparr>"
  by (simp add: startHealthChecks_def startEnter_def startResume_def stopHealthChecks_def
      initialRuntime_def)

section \<open>Reload failures\<close>

text \<open>
  C4 as stated fails on the service's own reload: with a shell on which every command
  fails, \<^verbatim>\<open>DNSLoadBalancerService.reloadBind9\<close> runs the reload only, attempts no
  restart and returns normally, and so does \<^verbatim>\<open>updateDNSRecords\<close>, the path the
  periodic cycle takes.
\<close>

theorem service_reload_swallows_counterexample:
  "service_reloadBind9 (\<lambda>c. False) = ([''rndc reload''], Inr ())
   \<and> updateDNSRecords (\<lambda>c. False) [] ''r1'' 0 0
        \<lparr>lb_id = ''lb1'', lb_name = ''web'', lb_domainId = ''d1'',
         lb_domainName = ''example.com'', lb_isActive = True, algorithm = ''round-robin'',
         servers = [\<lparr>server_id = ''s1'', server_name = ''a'', ip = ''10.0.0.1'', port = 8080,
                     weight = 100, isActive = True,
                     health = Some \<lparr>status = ''healthy'', responseTime = 12, uptime = 0,
                                    load = 0, memoryUsage = 0, diskUsage = 0\<rparr>\<rparr>]\<rparr> =
       ([\<lparr>rec_id = ''r1'', rec_domainId = ''d1'', rec_name = ''web.example.com'',
          rec_type = ''A'', rec_value = ''10.0.0.1'', rec_ttl = 60, rec_priority = None,
          rec_weight = None, rec_port = None, isLoadBalanced = False,
          loadBalancerId = None\<rparr>],
        [''rndc reload''], Inr ())"
  by (simp add: service_reloadBind9_def updateDNSRecords_def healthyOf_def
      updateRoundRobinDNS_def persistSelection_def selectRoundRobin_def
      createOrUpdateDNSRecord_def recordName_of_def binary64_def)

text \<open>
  C4, amended. On the zone commit of the sync module (\<^verbatim>\<open>syncBind9\<close>, and
  \<^verbatim>\<open>updateDNSLoadBalancerRecords\<close> above it) a failed reload is followed by a restart
  attempt, and when both fail the restart's error is thrown to the caller. The commit
  runs the commands of the sync module's \<^verbatim>\<open>reloadBind9\<close> and ends as it ends.
\<close>

theorem sync_reload_fallback:
  "(sh (RNDC_PATH @ '' reload'') \<longrightarrow>
      reloadBind9 sh = ([RNDC_PATH @ '' reload''], Inr ()))
   \<and> (\<not> sh (RNDC_PATH @ '' reload'') \<longrightarrow>
      fst (reloadBind9 sh) = [RNDC_PATH @ '' reload'', ''sudo service named restart'']
      \<and> (sh ''sudo service named restart'' \<longrightarrow> snd (reloadBind9 sh) = Inr ())
      \<and> (\<not> sh ''sudo service named restart'' \<longrightarrow>
           snd (reloadBind9 sh) = Inl (ExecError ''sudo service named restart'')
           \<and> snd (snd (syncBind9 sh domains loadBalancers)) =
               Inl (ExecError ''sudo service named restart'')
           \<and> snd (snd (updateDNSLoadBalancerRecords sh domains loadBalancers)) =
               Inl (ExecError ''sudo service named restart'')))
   \<and> fst (snd (syncBind9 sh domains loadBalancers)) = fst (reloadBind9 sh)
   \<and> snd (snd (syncBind9 sh domains loadBalancers)) = snd (reloadBind9 sh)"
  by (auto simp add: reloadBind9_def syncBind9_def updateDNSLoadBalancerRecords_def
      Let_def RNDC_PATH_def)

theorem sync_reload_fallback_witness:
  "\<not> (\<lambda>c. False) (RNDC_PATH @ '' reload'')
   \<and> \<not> (\<lambda>c. False) ''sudo service named restart''
   \<and> reloadBind9 (\<lambda>c. False) =
       ([''/usr/sbin/rndc reload'', ''sudo service named restart''],
        Inl (ExecError ''sudo service named restart''))
   \<and> snd (snd (syncBind9 (\<lambda>c. False) [] [])) = Inl (ExecError ''sudo service named restart'')
   \<and> reloadBind9 (\<lambda>c. c = ''sudo service named restart'') =
       ([''/usr/sbin/rndc reload'', ''sudo service named restart''], Inr ())
   \<and> reloadBind9 (\<lambda>c. True) = ([''/usr/sbin/rndc reload''], Inr ())"
  using sync_reload_fallback [of "\<lambda>c. False" "[]" "[]"]
    sync_reload_fallback [of "\<lambda>c. c = ''sudo service named restart''"]
    sync_reload_fallback [of "\<lambda>c. True"]
  by (simp add: RNDC_PATH_def prod_eq_iff)

section \<open>Health-based selection\<close>

text \<open>
  C2 as stated fails: the code adds the response-time term only when the response time
  is positive. A server with response time 0 and one with the sentinel -1 score 300
  where the formula gives 400 and 401, and between a server with response time 0 and
  one with response time 40, all other metrics equal, the code selects the second
  although the formula ranks the first higher.
\<close>

theorem health_score_counterexample:
  "calculateHealthScore
     \<lparr>server_id = ''a'', server_name = ''a'', ip = ''10.0.0.1'', port = 53, weight = 100,
      isActive = True,
      health = Some \<lparr>status = ''healthy'', responseTime = 0, uptime = 0, load = 0,
                     memoryUsage = 0, diskUsage = 0\<rparr>\<rparr> = 300
   \<and> specScore \<lparr>status = ''healthy'', responseTime = 0, uptime = 0, load = 0,
                 memoryUsage = 0, diskUsage = 0\<rparr> = 400
   \<and> calculateHealthScore
     \<lparr>server_id = ''c'', server_name = ''c'', ip = ''10.0.0.3'', port = 80, weight = 100,
      isActive = True,
      health = Some \<lparr>status = ''healthy'', responseTime = - 1, uptime = 0, load = 0,
                     memoryUsage = 0, diskUsage = 0\<rparr>\<rparr> = 300
   \<and> specScore \<lparr>status = ''healthy'', responseTime = - 1, uptime = 0, load = 0,
                 memoryUsage = 0, diskUsage = 0\<rparr> = 401
   \<and> specScore \<lparr>status = ''healthy'', responseTime = 40, uptime = 0, load = 0,
                 memoryUsage = 0, diskUsage = 0\<rparr> = 360
   \<and> selectHealthBased
     [\<lparr>server_id = ''a'', server_name = ''a'', ip = ''10.0.0.1'', port = 53, weight = 100,
       isActive = True,
       health = Some \<lparr>status = ''healthy'', responseTime = 0, uptime = 0, load = 0,
                      memoryUsage = 0, diskUsage = 0\<rparr>\<rparr>,
      \<lparr>server_id = ''b'', server_name = ''b'', ip = ''10.0.0.2'', port = 80, weight = 100,
       isActive = True,
       health = Some \<lparr>status = ''healthy'', responseTime = 40, uptime = 0, load = 0,
                      memoryUsage = 0, diskUsage = 0\<rparr>\<rparr>]
     = Some \<lparr>server_id = ''b'', server_name = ''b'', ip = ''10.0.0.2'', port = 80,
       weight = 100, isActive = True,
       health = Some \<lparr>status = ''healthy'', responseTime = 40, uptime = 0, load = 0,
                      memoryUsage = 0, diskUsage = 0\<rparr>\<rparr>"
  by (simp add: calculateHealthScore_def specScore_def selectHealthBased_def betterServer_def
      responseTimeTerm_def uptimeTerm_def loadTerm_def memoryTerm_def diskTerm_def
      binary64_zero binary64_numeral)

lemma binary64_max0: "binary64 (max 0 (binary64 x)) = max 0 (binary64 x)"
  by (simp add: max_def binary64_idem binary64_zero)

lemma binary64_min100: "binary64 (min 100 (binary64 x)) = min 100 (binary64 x)"
  by (simp add: min_def binary64_idem binary64_numeral)

lemma foldl_betterServer_first_max:
  "\<exists>pre post. first # rest = pre @ foldl betterServer first rest # post
     \<and> (\<forall>s\<in>set pre. calculateHealthScore s < calculateHealthScore (foldl betterServer first rest))
     \<and> (\<forall>s\<in>set post. calculateHealthScore s \<le> calculateHealthScore (foldl betterServer first rest))"
proof (induction rest rule: rev_induct)
  case Nil
  have "[first] = [] @ first # []" by simp
  then show ?case by force
next
  case (snoc x xs)
  let ?b = "foldl betterServer first xs"
  from snoc obtain pre post where
    split: "first # xs = pre @ ?b # post"
    and pre: "\<forall>s\<in>set pre. calculateHealthScore s < calculateHealthScore ?b"
    and post: "\<forall>s\<in>set post. calculateHealthScore s \<le> calculateHealthScore ?b"
    by blast
  show ?case
  proof (cases "calculateHealthScore x > calculateHealthScore ?b")
    case True
    then have r: "foldl betterServer first (xs @ [x]) = x"
      by (simp add: betterServer_def)
    have "\<forall>s\<in>set (first # xs). calculateHealthScore s < calculateHealthScore x"
      unfolding split using pre post True by fastforce
    moreover have "first # xs @ [x] = (first # xs) @ x # []" by simp
    ultimately show ?thesis unfolding r by (metis empty_iff empty_set)
  next
    case False
    then have r: "foldl betterServer first (xs @ [x]) = ?b"
      by (simp add: betterServer_def)
    have "first # xs @ [x] = pre @ ?b # (post @ [x])" using split by simp
    moreover have "\<forall>s\<in>set (post @ [x]). calculateHealthScore s \<le> calculateHealthScore ?b"
      using post False by auto
    ultimately show ?thesis unfolding r using pre by blast
  qed
qed

lemma calculateHealthScore_measured:
  "health s = Some h \<Longrightarrow> 0 < responseTime h \<Longrightarrow> calculateHealthScore s = specScore h"
  by (simp add: calculateHealthScore_def specScore_def responseTimeTerm_def binary64_max0)

lemma calculateHealthScore_unmeasured:
  "health s = Some h \<Longrightarrow> responseTime h \<le> 0 \<Longrightarrow> calculateHealthScore s = metricsScore h"
  by (simp add: calculateHealthScore_def metricsScore_def uptimeTerm_def binary64_min100)

text \<open>
  C2, amended. For every non-empty list of healthy servers the health-based selection
  persists exactly one server: the first one, in iteration order, whose computed score
  is maximal (every server before it scores strictly less, every server after it scores
  at most as much). The computed score of a server with a health row equals the formula
  of the specification, evaluated in double arithmetic, when its response time is
  positive; when the response time is 0 or negative (the sentinel -1) the
  response-time term is left out.
\<close>

theorem health_based_selection:
  "healthyServers \<noteq> [] \<longrightarrow>
     (\<exists>best pre post.
        selectHealthBased healthyServers = Some best
        \<and> updateHealthBasedDNS table newId loadBalancer healthyServers =
            createOrUpdateDNSRecord table newId loadBalancer best
        \<and> healthyServers = pre @ best # post
        \<and> (\<forall>s\<in>set pre. calculateHealthScore s < calculateHealthScore best)
        \<and> (\<forall>s\<in>set post. calculateHealthScore s \<le> calculateHealthScore best))
     \<and> (\<forall>s\<in>set healthyServers. \<forall>h. health s = Some h \<longrightarrow>
          (0 < responseTime h \<longrightarrow> calculateHealthScore s = specScore h)
          \<and> (responseTime h \<le> 0 \<longrightarrow> calculateHealthScore s = metricsScore h))"
proof (intro impI conjI)
  assume "healthyServers \<noteq> []"
  then obtain first rest where hs: "healthyServers = first # rest"
    by (cases healthyServers) auto
  let ?b = "foldl betterServer first rest"
  from foldl_betterServer_first_max [of first rest] obtain pre post where
    split: "first # rest = pre @ ?b # post"
    and pre: "\<forall>s\<in>set pre. calculateHealthScore s < calculateHealthScore ?b"
    and post: "\<forall>s\<in>set post. calculateHealthScore s \<le> calculateHealthScore ?b"
    by blast
  have sel: "selectHealthBased healthyServers = Some ?b"
    by (simp add: hs selectHealthBased_def)
  then have upd: "updateHealthBasedDNS table newId loadBalancer healthyServers =
            createOrUpdateDNSRecord table newId loadBalancer ?b"
    by (simp add: updateHealthBasedDNS_def persistSelection_def)
  from split have "healthyServers = pre @ ?b # post" by (simp add: hs)
  with sel upd pre post show "\<exists>best pre post.
        selectHealthBased healthyServers = Some best
        \<and> updateHealthBasedDNS table newId loadBalancer healthyServers =
            createOrUpdateDNSRecord table newId loadBalancer best
        \<and> healthyServers = pre @ best # post
        \<and> (\<forall>s\<in>set pre. calculateHealthScore s < calculateHealthScore best)
        \<and> (\<forall>s\<in>set post. calculateHealthScore s \<le> calculateHealthScore best)"
    by blast
next
  show "\<forall>s\<in>set healthyServers. \<forall>h. health s = Some h \<longrightarrow>
          (0 < responseTime h \<longrightarrow> calculateHealthScore s = specScore h)
          \<and> (responseTime h \<le> 0 \<longrightarrow> calculateHealthScore s = metricsScore h)"
    by (simp add: calculateHealthScore_measured calculateHealthScore_unmeasured)
qed

theorem health_based_selection_witness:
  "[\<lparr>server_id = ''a'', server_name = ''a'', ip = ''10.0.0.1'', port = 80, weight = 100,
      isActive = True,
      health = Some \<lparr>status = ''healthy'', responseTime = 10, uptime = 0, load = 0,
                     memoryUsage = 3602879701896397 / 36028797018963968, diskUsage = 0\<rparr>\<rparr>,
    \<lparr>server_id = ''b'', server_name = ''b'', ip = ''10.0.0.2'', port = 80, weight = 100,
      isActive = True,
      health = Some \<lparr>status = ''healthy'', responseTime = 10, uptime = 0, load = 0,
                     memoryUsage = 7205759403792795 / 72057594037927936, diskUsage = 0\<rparr>\<rparr>,
    \<lparr>server_id = ''c'', server_name = ''c'', ip = ''10.0.0.3'', port = 80, weight = 100,
      isActive = True,
      health = Some \<lparr>status = ''healthy'', responseTime = - 1, uptime = 0, load = 0,
                     memoryUsage = 0, diskUsage = 0\<rparr>\<rparr>] \<noteq> []
   \<and> (\<exists>best. selectHealthBased
     [\<lparr>server_id = ''a'', server_name = ''a'', ip = ''10.0.0.1'', port = 80, weight = 100,
       isActive = True,
       health = Some \<lparr>status = ''healthy'', responseTime = 10, uptime = 0, load = 0,
                      memoryUsage = 3602879701896397 / 36028797018963968, diskUsage = 0\<rparr>\<rparr>,
      \<lparr>server_id = ''b'', server_name = ''b'', ip = ''10.0.0.2'', port = 80, weight = 100,
       isActive = True,
       health = Some \<lparr>status = ''healthy'', responseTime = 10, uptime = 0, load = 0,
                      memoryUsage = 7205759403792795 / 72057594037927936, diskUsage = 0\<rparr>\<rparr>,
      \<lparr>server_id = ''c'', server_name = ''c'', ip = ''10.0.0.3'', port = 80, weight = 100,
       isActive = True,
       health = Some \<lparr>status = ''healthy'', responseTime = - 1, uptime = 0, load = 0,
                      memoryUsage = 0, diskUsage = 0\<rparr>\<rparr>] = Some best
       \<and> ip best = ''10.0.0.1'')
   \<and> calculateHealthScore
       \<lparr>server_id = ''b'', server_name = ''b'', ip = ''10.0.0.2'', port = 80, weight = 100,
        isActive = True,
        health = Some \<lparr>status = ''healthy'', responseTime = 10, uptime = 0, load = 0,
                       memoryUsage = 7205759403792795 / 72057594037927936, diskUsage = 0\<rparr>\<rparr>
     = specScore \<lparr>status = ''healthy'', responseTime = 10, uptime = 0, load = 0,
                   memoryUsage = 7205759403792795 / 72057594037927936, diskUsage = 0\<rparr>
   \<and> calculateHealthScore
       \<lparr>server_id = ''c'', server_name = ''c'', ip = ''10.0.0.3'', port = 80, weight = 100,
        isActive = True,
        health = Some \<lparr>status = ''healthy'', responseTime = - 1, uptime = 0, load = 0,
                       memoryUsage = 0, diskUsage = 0\<rparr>\<rparr>
     = metricsScore \<lparr>status = ''healthy'', responseTime = - 1, uptime = 0, load = 0,
                      memoryUsage = 0, diskUsage = 0\<rparr>"
proof -
  define ha where "ha = \<lparr>status = ''healthy'', responseTime = 10, uptime = 0, load = 0,
      memoryUsage = 3602879701896397 / 36028797018963968, diskUsage = 0\<rparr>"
  define hb where "hb = \<lparr>status = ''healthy'', responseTime = 10, uptime = 0, load = 0,
      memoryUsage = 7205759403792795 / 72057594037927936, diskUsage = 0\<rparr>"
  define hc where "hc = \<lparr>status = ''healthy'', responseTime = - 1, uptime = 0, load = 0,
      memoryUsage = 0, diskUsage = 0\<rparr>"
  define a where "a = \<lparr>server_id = ''a'', server_name = ''a'', ip = ''10.0.0.1'', port = 80,
      weight = 100, isActive = True, health = Some ha\<rparr>"
  define b where "b = \<lparr>server_id = ''b'', server_name = ''b'', ip = ''10.0.0.2'', port = 80,
      weight = 100, isActive = True, health = Some hb\<rparr>"
  define c where "c = \<lparr>server_id = ''c'', server_name = ''c'', ip = ''10.0.0.3'', port = 80,
      weight = 100, isActive = True, health = Some hc\<rparr>"
  have hs: "health a = Some ha" "health b = Some hb" "health c = Some hc"
    "0 < responseTime ha" "0 < responseTime hb" "responseTime hc \<le> 0"
    by (simp_all add: a_def b_def c_def ha_def hb_def hc_def)
  have ma: "memoryTerm ha = 3514918771674317 / 35184372088832"
    by (simp add: memoryTerm_def ha_def binary64_def exponent2.simps roundEven_def)
  have mb: "memoryTerm hb = 3514918771674317 / 35184372088832"
    by (simp add: memoryTerm_def hb_def binary64_def exponent2.simps roundEven_def)
  have ta: "responseTimeTerm ha = 90" "uptimeTerm ha = 0" "loadTerm ha = 100" "diskTerm ha = 100"
    by (simp_all add: responseTimeTerm_def uptimeTerm_def loadTerm_def diskTerm_def ha_def
        binary64_zero binary64_numeral)
  have tb: "responseTimeTerm hb = 90" "uptimeTerm hb = 0" "loadTerm hb = 100" "diskTerm hb = 100"
    by (simp_all add: responseTimeTerm_def uptimeTerm_def loadTerm_def diskTerm_def hb_def
        binary64_zero binary64_numeral)
  have sum1: "binary64 (190 + 3514918771674317 / 35184372088832) =
      2549987367138099 / 8796093022208"
    by (simp add: binary64_def exponent2.simps roundEven_def)
  have sum2: "binary64 (2549987367138099 / 8796093022208 + 100) =
      3429596669358899 / 8796093022208"
    by (simp add: binary64_def exponent2.simps roundEven_def)
  have st: "binary64 (0 + 90) = 90" "binary64 (90 + 0) = 90" "binary64 (90 + 100) = 190"
    by (simp_all add: binary64_numeral)
  have ea: "calculateHealthScore a =
      binary64 (binary64 (binary64 (binary64 (binary64 (0 + responseTimeTerm ha)
        + uptimeTerm ha) + loadTerm ha) + memoryTerm ha) + diskTerm ha)"
    by (simp add: calculateHealthScore_def hs)
  have eb: "calculateHealthScore b =
      binary64 (binary64 (binary64 (binary64 (binary64 (0 + responseTimeTerm hb)
        + uptimeTerm hb) + loadTerm hb) + memoryTerm hb) + diskTerm hb)"
    by (simp add: calculateHealthScore_def hs)
  have sa: "calculateHealthScore a = 3429596669358899 / 8796093022208"
    by (simp only: ea ta ma st sum1 sum2)
  have sb: "calculateHealthScore b = 3429596669358899 / 8796093022208"
    by (simp only: eb tb mb st sum1 sum2)
  have sc: "calculateHealthScore c = 300"
    by (simp add: calculateHealthScore_def c_def hc_def responseTimeTerm_def uptimeTerm_def
        loadTerm_def memoryTerm_def diskTerm_def binary64_zero binary64_numeral)
  have sel: "selectHealthBased [a, b, c] = Some a"
    by (simp add: selectHealthBased_def betterServer_def sa sb sc)
  have ne: "[a, b, c] \<noteq> []" by simp
  note inst = health_based_selection [of "[a, b, c]", THEN mp, OF ne]
  from inst [THEN conjunct1] sel
  have best: "\<exists>best. selectHealthBased [a, b, c] = Some best \<and> ip best = ''10.0.0.1''"
    by (simp add: a_def)
  from inst [THEN conjunct2] hs
  have "calculateHealthScore b = specScore hb" and "calculateHealthScore c = metricsScore hc"
    by simp_all
  with ne best show ?thesis
    unfolding a_def b_def c_def ha_def hb_def hc_def by blast
qed

section \<open>Weighted selection\<close>

text \<open>
  C3 as stated fails at a draw of exactly 0: the walk subtracts the first server's
  weight and tests \<^verbatim>\<open>random <= 0\<close>, so a first server of weight 0 is selected and
  persisted although the total weight is 5 and the draw lies in the interval.
\<close>

theorem weighted_zero_weight_counterexample:
  "totalWeight
     [\<lparr>server_id = ''s0'', server_name = ''idle'', ip = ''10.0.0.9'', port = 8080,
       weight = 0, isActive = True, health = None\<rparr>,
      \<lparr>server_id = ''s1'', server_name = ''busy'', ip = ''10.0.0.1'', port = 8080,
       weight = 5, isActive = True, health = None\<rparr>] = 5
   \<and> binary64 (0 * 5) = 0
   \<and> selectWeighted 0
     [\<lparr>server_id = ''s0'', server_name = ''idle'', ip = ''10.0.0.9'', port = 8080,
       weight = 0, isActive = True, health = None\<rparr>,
      \<lparr>server_id = ''s1'', server_name = ''busy'', ip = ''10.0.0.1'', port = 8080,
       weight = 5, isActive = True, health = None\<rparr>]
     = Some \<lparr>server_id = ''s0'', server_name = ''idle'', ip = ''10.0.0.9'', port = 8080,
       weight = 0, isActive = True, health = None\<rparr>
   \<and> updateWeightedDNS [] ''r1'' 0
       \<lparr>lb_id = ''lb1'', lb_name = ''web'', lb_domainId = ''d1'',
        lb_domainName = ''example.com'', lb_isActive = True, algorithm = ''weighted'',
        servers = []\<rparr>
       [\<lparr>server_id = ''s0'', server_name = ''idle'', ip = ''10.0.0.9'', port = 8080,
         weight = 0, isActive = True, health = None\<rparr>,
        \<lparr>server_id = ''s1'', server_name = ''busy'', ip = ''10.0.0.1'', port = 8080,
         weight = 5, isActive = True, health = None\<rparr>]
     = [\<lparr>rec_id = ''r1'', rec_domainId = ''d1'', rec_name = ''web.example.com'',
         rec_type = ''A'', rec_value = ''10.0.0.9'', rec_ttl = 60, rec_priority = None,
         rec_weight = None, rec_port = None, isLoadBalanced = False, loadBalancerId = None\<rparr>]"
  by (simp add: selectWeighted_def totalWeight_def binary64_zero binary64_numeral
      updateWeightedDNS_def persistSelection_def createOrUpdateDNSRecord_def recordName_of_def)

lemma sum_list_le_abs:
  "sum_list (map weight ss) \<le> sum_list (map (\<lambda>s. \<bar>weight s\<bar>) ss)"
  by (induction ss) auto

lemma foldl_weight_exact:
  "\<bar>a\<bar> + sum_list (map (\<lambda>s. \<bar>weight s\<bar>) ss) < 2 ^ 53 \<Longrightarrow>
     foldl (\<lambda>sum s. binary64 (sum + real_of_int (weight s))) (of_int a) ss =
       of_int (a + sum_list (map weight ss))"
proof (induction ss arbitrary: a)
  case Nil
  then show ?case by simp
next
  case (Cons s ss)
  have nn: "0 \<le> sum_list (map (\<lambda>s. \<bar>weight s\<bar>) ss)" by (induction ss) auto
  from Cons.prems nn have "\<bar>a + weight s\<bar> < 2 ^ 53" by simp
  then have step: "binary64 (of_int a + real_of_int (weight s)) = of_int (a + weight s)"
    using binary64_of_int [of "a + weight s"] by simp
  from Cons.prems have "\<bar>a + weight s\<bar> + sum_list (map (\<lambda>s. \<bar>weight s\<bar>) ss) < 2 ^ 53"
    by simp
  from Cons.IH [OF this] show ?case by (simp add: step add.assoc)
qed

lemma totalWeight_exact:
  "sum_list (map (\<lambda>s. \<bar>weight s\<bar>) ss) < 2 ^ 53 \<Longrightarrow>
     totalWeight ss = of_int (sum_list (map weight ss))"
  using foldl_weight_exact [of 0 ss] by (simp add: totalWeight_def)

lemma weightedWalk_Some_positive:
  "0 < random \<Longrightarrow> weightedWalk random ss = Some s \<Longrightarrow> s \<in> set ss \<and> 0 < weight s"
proof (induction ss arbitrary: random)
  case Nil
  then show ?case by simp
next
  case (Cons server rest)
  let ?r = "binary64 (random - real_of_int (weight server))"
  show ?case
  proof (cases "?r \<le> 0")
    case True
    with Cons.prems have s: "s = server" by simp
    have "0 < weight server"
    proof (rule ccontr)
      assume "\<not> 0 < weight server"
      with Cons.prems(1) have "0 < random - real_of_int (weight server)" by simp
      from binary64_positive [OF this] True show False by simp
    qed
    with s show ?thesis by simp
  next
    case False
    with Cons.prems have "weightedWalk ?r rest = Some s" by simp
    with False Cons.IH [of ?r] show ?thesis by simp
  qed
qed

lemma weightedWalk_selects:
  "0 < random \<Longrightarrow> random \<le> real_of_int (sum_list (map weight ss))
     \<Longrightarrow> sum_list (map (\<lambda>s. \<bar>weight s\<bar>) ss) < 2 ^ 53
     \<Longrightarrow> \<exists>s. weightedWalk random ss = Some s"
proof (induction ss arbitrary: random)
  case Nil
  then show ?case by simp
next
  case (Cons server rest)
  let ?x = "random - real_of_int (weight server)"
  let ?r = "binary64 ?x"
  show ?case
  proof (cases "?r \<le> 0")
    case True
    then show ?thesis by simp
  next
    case False
    have xpos: "0 < ?x"
    proof (rule ccontr)
      assume "\<not> 0 < ?x"
      then have "?x \<le> 0" by simp
      from binary64_nonpos [OF this] False show False by simp
    qed
    from Cons.prems(2) have le: "?x \<le> real_of_int (sum_list (map weight rest))" by simp
    from Cons.prems(3) have b: "sum_list (map (\<lambda>s. \<bar>weight s\<bar>) rest) < 2 ^ 53" by simp
    with sum_list_le_abs [of rest] have "sum_list (map weight rest) < 2 ^ 53" by linarith
    then have "real_of_int (sum_list (map weight rest)) < of_int (2 ^ 53)"
      by (simp only: of_int_less_iff)
    with le have lt: "?x < 2 ^ 53" by simp
    from binary64_le_int [OF xpos lt le] have "?r \<le> real_of_int (sum_list (map weight rest))" .
    moreover from False have "0 < ?r" by simp
    ultimately obtain s where "weightedWalk ?r rest = Some s"
      using Cons.IH [of ?r] b by blast
    with False show ?thesis by simp
  qed
qed

text \<open>
  C3, amended. A server selected by the walk from a positive running value has a
  strictly positive weight. For every list of healthy servers whose weights add up
  exactly in double arithmetic (their magnitudes sum to less than 2 to the power 53) and
  every draw \<^verbatim>\<open>Math.random() * totalWeight\<close> strictly between 0 and the total weight,
  the selection finds such a server of the list and \<^verbatim>\<open>updateWeightedDNS\<close> persists
  it. At a draw of exactly 0 the first server of the list is selected and persisted when
  its weight is strictly positive.
\<close>

theorem weighted_selection_positive:
  "(0 < draw \<and> weightedWalk draw healthyServers = Some s \<longrightarrow>
      s \<in> set healthyServers \<and> 0 < weight s)
   \<and> (sum_list (map (\<lambda>s. \<bar>weight s\<bar>) healthyServers) < 2 ^ 53
      \<and> 0 < binary64 (mathRandom * totalWeight healthyServers)
      \<and> binary64 (mathRandom * totalWeight healthyServers) < totalWeight healthyServers \<longrightarrow>
      totalWeight healthyServers = real_of_int (sum_list (map weight healthyServers))
      \<and> (\<exists>s. selectWeighted mathRandom healthyServers = Some s \<and> s \<in> set healthyServers
             \<and> 0 < weight s
             \<and> updateWeightedDNS table newId mathRandom loadBalancer healthyServers =
                 createOrUpdateDNSRecord table newId loadBalancer s))
   \<and> (binary64 (mathRandom * totalWeight (first # rest)) = 0 \<and> 0 < weight first \<longrightarrow>
      selectWeighted mathRandom (first # rest) = Some first
      \<and> updateWeightedDNS table newId mathRandom loadBalancer (first # rest) =
          createOrUpdateDNSRecord table newId loadBalancer first)"
proof (intro conjI impI)
  assume "0 < draw \<and> weightedWalk draw healthyServers = Some s"
  then show "s \<in> set healthyServers" and "0 < weight s"
    using weightedWalk_Some_positive [of draw healthyServers s] by simp_all
next
  assume a: "sum_list (map (\<lambda>s. \<bar>weight s\<bar>) healthyServers) < 2 ^ 53
      \<and> 0 < binary64 (mathRandom * totalWeight healthyServers)
      \<and> binary64 (mathRandom * totalWeight healthyServers) < totalWeight healthyServers"
  let ?d = "binary64 (mathRandom * totalWeight healthyServers)"
  from a show t: "totalWeight healthyServers = real_of_int (sum_list (map weight healthyServers))"
    by (simp add: totalWeight_exact)
  from a have pos: "0 < ?d" by simp
  from a t have le: "?d \<le> real_of_int (sum_list (map weight healthyServers))" by simp
  from a have b: "sum_list (map (\<lambda>s. \<bar>weight s\<bar>) healthyServers) < 2 ^ 53" by simp
  from weightedWalk_selects [OF pos le b] obtain s where s: "weightedWalk ?d healthyServers = Some s"
    by blast
  then have sel: "selectWeighted mathRandom healthyServers = Some s"
    by (simp add: selectWeighted_def)
  then have "updateWeightedDNS table newId mathRandom loadBalancer healthyServers =
      createOrUpdateDNSRecord table newId loadBalancer s"
    by (simp add: updateWeightedDNS_def persistSelection_def)
  with sel weightedWalk_Some_positive [OF pos s]
  show "\<exists>s. selectWeighted mathRandom healthyServers = Some s \<and> s \<in> set healthyServers
             \<and> 0 < weight s
             \<and> updateWeightedDNS table newId mathRandom loadBalancer healthyServers =
                 createOrUpdateDNSRecord table newId loadBalancer s"
    by blast
next
  assume a: "binary64 (mathRandom * totalWeight (first # rest)) = 0 \<and> 0 < weight first"
  then have "binary64 (0 - real_of_int (weight first)) \<le> 0"
    by (intro binary64_nonpos) simp
  with a show sel: "selectWeighted mathRandom (first # rest) = Some first"
    by (simp add: selectWeighted_def)
  then show "updateWeightedDNS table newId mathRandom loadBalancer (first # rest) =
          createOrUpdateDNSRecord table newId loadBalancer first"
    by (simp add: updateWeightedDNS_def persistSelection_def)
qed

theorem weighted_selection_positive_witness:
  "sum_list (map (\<lambda>s. \<bar>weight s\<bar>)
     [\<lparr>server_id = ''s1'', server_name = ''a'', ip = ''10.0.0.1'', port = 8080,
       weight = 1, isActive = True, health = None\<rparr>,
      \<lparr>server_id = ''s2'', server_name = ''b'', ip = ''10.0.0.2'', port = 8080,
       weight = 9, isActive = True, health = None\<rparr>]) < 2 ^ 53
   \<and> binary64 (3602879701896397 / 36028797018963968 * totalWeight
     [\<lparr>server_id = ''s1'', server_name = ''a'', ip = ''10.0.0.1'', port = 8080,
       weight = 1, isActive = True, health = None\<rparr>,
      \<lparr>server_id = ''s2'', server_name = ''b'', ip = ''10.0.0.2'', port = 8080,
       weight = 9, isActive = True, health = None\<rparr>]) = 1
   \<and> totalWeight
     [\<lparr>server_id = ''s1'', server_name = ''a'', ip = ''10.0.0.1'', port = 8080,
       weight = 1, isActive = True, health = None\<rparr>,
      \<lparr>server_id = ''s2'', server_name = ''b'', ip = ''10.0.0.2'', port = 8080,
       weight = 9, isActive = True, health = None\<rparr>] = 10
   \<and> (\<exists>s. selectWeighted (3602879701896397 / 36028797018963968)
     [\<lparr>server_id = ''s1'', server_name = ''a'', ip = ''10.0.0.1'', port = 8080,
       weight = 1, isActive = True, health = None\<rparr>,
      \<lparr>server_id = ''s2'', server_name = ''b'', ip = ''10.0.0.2'', port = 8080,
       weight = 9, isActive = True, health = None\<rparr>] = Some s
      \<and> ip s = ''10.0.0.1'' \<and> 0 < weight s
      \<and> updateWeightedDNS [] ''r1'' (3602879701896397 / 36028797018963968)
          \<lparr>lb_id = ''lb1'', lb_name = ''web'', lb_domainId = ''d1'',
           lb_domainName = ''example.com'', lb_isActive = True, algorithm = ''weighted'',
           servers = []\<rparr>
          [\<lparr>server_id = ''s1'', server_name = ''a'', ip = ''10.0.0.1'', port = 8080,
            weight = 1, isActive = True, health = None\<rparr>,
           \<lparr>server_id = ''s2'', server_name = ''b'', ip = ''10.0.0.2'', port = 8080,
            weight = 9, isActive = True, health = None\<rparr>]
        = [\<lparr>rec_id = ''r1'', rec_domainId = ''d1'', rec_name = ''web.example.com'',
            rec_type = ''A'', rec_value = ''10.0.0.1'', rec_ttl = 60, rec_priority = None,
            rec_weight = None, rec_port = None, isLoadBalanced = False,
            loadBalancerId = None\<rparr>])
   \<and> selectWeighted 0
     [\<lparr>server_id = ''s1'', server_name = ''a'', ip = ''10.0.0.1'', port = 8080,
       weight = 1, isActive = True, health = None\<rparr>,
      \<lparr>server_id = ''s2'', server_name = ''b'', ip = ''10.0.0.2'', port = 8080,
       weight = 9, isActive = True, health = None\<rparr>]
     = Some \<lparr>server_id = ''s1'', server_name = ''a'', ip = ''10.0.0.1'', port = 8080,
       weight = 1, isActive = True, health = None\<rparr>"
proof -
  define s1 where "s1 = \<lparr>server_id = ''s1'', server_name = ''a'', ip = ''10.0.0.1'',
       port = 8080, weight = 1, isActive = True, health = None\<rparr>"
  define s2 where "s2 = \<lparr>server_id = ''s2'', server_name = ''b'', ip = ''10.0.0.2'',
       port = 8080, weight = 9, isActive = True, health = None\<rparr>"
  define lb where "lb = \<lparr>lb_id = ''lb1'', lb_name = ''web'', lb_domainId = ''d1'',
           lb_domainName = ''example.com'', lb_isActive = True, algorithm = ''weighted'',
           servers = []\<rparr>"
  define r :: real where "r = 3602879701896397 / 36028797018963968"
  have w: "weight s1 = 1" "weight s2 = 9" "ip s1 = ''10.0.0.1''"
    by (simp_all add: s1_def s2_def)
  have bound: "sum_list (map (\<lambda>s. \<bar>weight s\<bar>) [s1, s2]) < 2 ^ 53" by (simp add: w)
  have t: "totalWeight [s1, s2] = 10" by (simp add: totalWeight_exact [OF bound] w)
  have "binary64 (3602879701896397 / 36028797018963968 * 10) = 1"
    by (simp add: binary64_def exponent2.simps roundEven_def)
  then have d10: "binary64 (r * 10) = 1" by (simp only: r_def)
  then have d: "binary64 (r * totalWeight [s1, s2]) = 1" by (simp only: t)
  have "(0::real) < 1 \<and> (1::real) < 10" by simp
  then have "0 < binary64 (r * totalWeight [s1, s2])
      \<and> binary64 (r * totalWeight [s1, s2]) < totalWeight [s1, s2]"
    by (simp only: t d10)
  with bound have h: "sum_list (map (\<lambda>s. \<bar>weight s\<bar>) [s1, s2]) < 2 ^ 53
      \<and> 0 < binary64 (r * totalWeight [s1, s2])
      \<and> binary64 (r * totalWeight [s1, s2]) < totalWeight [s1, s2]"
    by blast
  note inst = weighted_selection_positive [where healthyServers = "[s1, s2]"
      and mathRandom = r and table = "[]" and newId = "''r1''" and loadBalancer = lb]
  from inst [THEN conjunct2, THEN conjunct1, THEN mp, OF h, THEN conjunct2]
  obtain s where s: "selectWeighted r [s1, s2] = Some s" "0 < weight s"
    "updateWeightedDNS [] ''r1'' r lb [s1, s2] = createOrUpdateDNSRecord [] ''r1'' lb s"
    by blast
  have "binary64 (1 - 1) \<le> 0" by (simp add: binary64_zero)
  then have "selectWeighted r [s1, s2] = Some s1"
    by (simp add: selectWeighted_def d w)
  with s(1) have ss: "s = s1" by simp
  have row: "createOrUpdateDNSRecord [] ''r1'' lb s1 =
      [\<lparr>rec_id = ''r1'', rec_domainId = ''d1'', rec_name = ''web.example.com'',
        rec_type = ''A'', rec_value = ''10.0.0.1'', rec_ttl = 60, rec_priority = None,
        rec_weight = None, rec_port = None, isLoadBalanced = False, loadBalancerId = None\<rparr>]"
    by (simp add: createOrUpdateDNSRecord_def recordName_of_def lb_def s1_def)
  from s ss row w have first: "\<exists>s. selectWeighted r [s1, s2] = Some s
      \<and> ip s = ''10.0.0.1'' \<and> 0 < weight s
      \<and> updateWeightedDNS [] ''r1'' r lb [s1, s2] =
        [\<lparr>rec_id = ''r1'', rec_domainId = ''d1'', rec_name = ''web.example.com'',
          rec_type = ''A'', rec_value = ''10.0.0.1'', rec_ttl = 60, rec_priority = None,
          rec_weight = None, rec_port = None, isLoadBalanced = False,
          loadBalancerId = None\<rparr>]"
    by simp
  have z: "binary64 (0 * totalWeight [s1, s2]) = 0 \<and> 0 < weight s1"
    by (simp add: binary64_zero w)
  from weighted_selection_positive [where mathRandom = 0 and first = s1 and rest = "[s2]",
      THEN conjunct2, THEN conjunct2, THEN mp, OF z, THEN conjunct1]
  have zero: "selectWeighted 0 [s1, s2] = Some s1" .
  from bound d t first zero show ?thesis
    unfolding s1_def s2_def lb_def r_def by blast
qed

section \<open>Records a balancer adds to the zone\<close>

lemma zoneContent_balancer_block:
  "zoneContent d (before @ lb # after) =
     zoneHeader (domain_name d)
     @ concat (map (recordLine (domain_name d)) (records d))
     @ concat (map (balancerRecords (domain_name d)) before)
     @ balancerRecords (domain_name d) lb
     @ concat (map (balancerRecords (domain_name d)) after)"
  by (simp add: zoneContent_def)

lemma afterAlgorithm_mset: "mset (afterAlgorithm lb hs) = mset hs"
  by (simp add: afterAlgorithm_def)

lemma afterAlgorithm_length: "length (afterAlgorithm lb hs) = length hs"
  by (simp add: afterAlgorithm_def)

text \<open>
  C7. The zone text holds the part of every balancer in the list, after the header and
  the stored records. For an active balancer on the domain being synthesized, with
  \<open>N\<close> healthy servers: when \<open>N > 1\<close> the balancer's part of the zone is its address records
  followed by exactly one \<^verbatim>\<open>SRV\<close> line per healthy server, named
  \<^verbatim>\<open>_<balancerName>._tcp.<domain>.\<close>, with priority 0 and weight \<open>100 div N\<close>, which
  is what \<^verbatim>\<open>Math.floor((1 / N) * 100)\<close> yields in double arithmetic for every
  \<open>N \<ge> 2\<close>; the lines follow the array the loop reads, a permutation of the healthy
  servers. When \<open>N \<le> 1\<close> the balancer adds no \<^verbatim>\<open>SRV\<close> line.
\<close>

theorem srv_records_per_healthy_server:
  "zoneContent d (before @ lb # after) =
     zoneHeader (domain_name d)
     @ concat (map (recordLine (domain_name d)) (records d))
     @ concat (map (balancerRecords (domain_name d)) before)
     @ balancerRecords (domain_name d) lb
     @ concat (map (balancerRecords (domain_name d)) after)
   \<and> (lb_isActive lb \<and> lb_domainName lb = domainName \<longrightarrow>
     (1 < length (zoneHealthy (servers lb)) \<longrightarrow>
        balancerRecords domainName lb =
          algorithmRecords lb (zoneHealthy (servers lb))
          @ concat (map (\<lambda>server.
                ''_'' @ lb_name lb @ ''._tcp.'' @ domainName @ ''.       IN      SRV     0 ''
                @ intToString (100 div int (length (zoneHealthy (servers lb))))
                @ '' '' @ intToString (port server) @ '' '' @ ip server @ nl)
              (afterAlgorithm lb (zoneHealthy (servers lb))))
        \<and> mset (afterAlgorithm lb (zoneHealthy (servers lb))) = mset (zoneHealthy (servers lb))
        \<and> srvWeight (length (zoneHealthy (servers lb))) =
            100 div int (length (zoneHealthy (servers lb))))
     \<and> (length (zoneHealthy (servers lb)) \<le> 1 \<longrightarrow>
        srvRecords domainName lb (afterAlgorithm lb (zoneHealthy (servers lb))) = []
        \<and> balancerRecords domainName lb = algorithmRecords lb (zoneHealthy (servers lb))))"
proof (intro impI conjI)
  show "zoneContent d (before @ lb # after) =
     zoneHeader (domain_name d)
     @ concat (map (recordLine (domain_name d)) (records d))
     @ concat (map (balancerRecords (domain_name d)) before)
     @ balancerRecords (domain_name d) lb
     @ concat (map (balancerRecords (domain_name d)) after)"
    by (rule zoneContent_balancer_block)
next
  assume a: "lb_isActive lb \<and> lb_domainName lb = domainName"
    and n: "1 < length (zoneHealthy (servers lb))"
  let ?hs = "zoneHealthy (servers lb)"
  from n have w: "srvWeight (length ?hs) = 100 div int (length ?hs)"
    by (intro srvWeight_floor) simp
  then show "srvWeight (length ?hs) = 100 div int (length ?hs)" .
  show "mset (afterAlgorithm lb ?hs) = mset ?hs" by (rule afterAlgorithm_mset)
  from n have "?hs \<noteq> []" by auto
  then have "servers lb \<noteq> []" by (auto simp: zoneHealthy_def)
  with a have ap: "balancerApplies domainName lb" by (simp add: balancerApplies_def)
  have line: "srvLine domainName lb (length ?hs) = (\<lambda>server.
                ''_'' @ lb_name lb @ ''._tcp.'' @ domainName @ ''.       IN      SRV     0 ''
                @ intToString (100 div int (length ?hs))
                @ '' '' @ intToString (port server) @ '' '' @ ip server @ nl)"
    by (rule ext) (simp add: srvLine_def w)
  from n ap \<open>?hs \<noteq> []\<close> have "balancerRecords domainName lb =
      algorithmRecords lb ?hs
      @ concat (map (srvLine domainName lb (length ?hs)) (afterAlgorithm lb ?hs))"
    by (simp add: balancerRecords_def Let_def srvRecords_def afterAlgorithm_length)
  then show "balancerRecords domainName lb =
          algorithmRecords lb ?hs
          @ concat (map (\<lambda>server.
                ''_'' @ lb_name lb @ ''._tcp.'' @ domainName @ ''.       IN      SRV     0 ''
                @ intToString (100 div int (length ?hs))
                @ '' '' @ intToString (port server) @ '' '' @ ip server @ nl)
              (afterAlgorithm lb ?hs))"
    unfolding line .
next
  assume a: "lb_isActive lb \<and> lb_domainName lb = domainName"
    and n: "length (zoneHealthy (servers lb)) \<le> 1"
  let ?hs = "zoneHealthy (servers lb)"
  from n show s: "srvRecords domainName lb (afterAlgorithm lb ?hs) = []"
    by (simp add: srvRecords_def afterAlgorithm_length)
  have e: "algorithmRecords lb [] = []" by (simp add: algorithmRecords_def)
  show "balancerRecords domainName lb = algorithmRecords lb ?hs"
  proof (cases "?hs = []")
    case True
    then show ?thesis by (simp add: balancerRecords_def Let_def e del: length_0_conv)
  next
    case False
    then have "servers lb \<noteq> []" by (auto simp: zoneHealthy_def)
    with a have "balancerApplies domainName lb" by (simp add: balancerApplies_def)
    with False s show ?thesis by (simp add: balancerRecords_def Let_def)
  qed
qed

theorem srv_records_per_healthy_server_witness:
  "lb_isActive
     \<lparr>lb_id = ''lb1'', lb_name = ''web'', lb_domainId = ''d1'', lb_domainName = ''example.com'',
      lb_isActive = True, algorithm = ''health-based'',
      servers =
        [\<lparr>server_id = ''s1'', server_name = ''a'', ip = ''10.0.0.1'', port = 80, weight = 100,
          isActive = True,
          health = Some \<lparr>status = ''healthy'', responseTime = 30, uptime = 0, load = 0,
                         memoryUsage = 0, diskUsage = 0\<rparr>\<rparr>,
         \<lparr>server_id = ''s2'', server_name = ''b'', ip = ''10.0.0.2'', port = 8080,
          weight = 100, isActive = True,
          health = Some \<lparr>status = ''healthy'', responseTime = 10, uptime = 0, load = 0,
                         memoryUsage = 0, diskUsage = 0\<rparr>\<rparr>,
         \<lparr>server_id = ''s3'', server_name = ''c'', ip = ''10.0.0.3'', port = 443, weight = 100,
          isActive = True,
          health = Some \<lparr>status = ''healthy'', responseTime = 20, uptime = 0, load = 0,
                         memoryUsage = 0, diskUsage = 0\<rparr>\<rparr>]\<rparr>
   \<and> balancerRecords ''example.com''
     \<lparr>lb_id = ''lb1'', lb_name = ''web'', lb_domainId = ''d1'', lb_domainName = ''example.com'',
      lb_isActive = True, algorithm = ''health-based'',
      servers =
        [\<lparr>server_id = ''s1'', server_name = ''a'', ip = ''10.0.0.1'', port = 80, weight = 100,
          isActive = True,
          health = Some \<lparr>status = ''healthy'', responseTime = 30, uptime = 0, load = 0,
                         memoryUsage = 0, diskUsage = 0\<rparr>\<rparr>,
         \<lparr>server_id = ''s2'', server_name = ''b'', ip = ''10.0.0.2'', port = 8080,
          weight = 100, isActive = True,
          health = Some \<lparr>status = ''healthy'', responseTime = 10, uptime = 0, load = 0,
                         memoryUsage = 0, diskUsage = 0\<rparr>\<rparr>,
         \<lparr>server_id = ''s3'', server_name = ''c'', ip = ''10.0.0.3'', port = 443, weight = 100,
          isActive = True,
          health = Some \<lparr>status = ''healthy'', responseTime = 20, uptime = 0, load = 0,
                         memoryUsage = 0, diskUsage = 0\<rparr>\<rparr>]\<rparr>
     = ''web       IN      A       10.0.0.2'' @ nl
       @ ''web       IN      A       10.0.0.3'' @ nl
       @ ''web       IN      A       10.0.0.1'' @ nl
       @ ''_web._tcp.example.com.       IN      SRV     0 33 8080 10.0.0.2'' @ nl
       @ ''_web._tcp.example.com.       IN      SRV     0 33 443 10.0.0.3'' @ nl
       @ ''_web._tcp.example.com.       IN      SRV     0 33 80 10.0.0.1'' @ nl
   \<and> balancerRecords ''example.com''
     \<lparr>lb_id = ''lb2'', lb_name = ''api'', lb_domainId = ''d1'', lb_domainName = ''example.com'',
      lb_isActive = True, algorithm = ''round-robin'',
      servers =
        [\<lparr>server_id = ''s4'', server_name = ''d'', ip = ''10.0.0.4'', port = 80, weight = 100,
          isActive = True,
          health = Some \<lparr>status = ''healthy'', responseTime = 30, uptime = 0, load = 0,
                         memoryUsage = 0, diskUsage = 0\<rparr>\<rparr>,
         \<lparr>server_id = ''s5'', server_name = ''e'', ip = ''10.0.0.5'', port = 80, weight = 100,
          isActive = True,
          health = Some \<lparr>status = ''degraded'', responseTime = - 1, uptime = 0, load = 0,
                         memoryUsage = 0, diskUsage = 0\<rparr>\<rparr>]\<rparr>
     = ''api       IN      A       10.0.0.4'' @ nl"
proof -
  define s1 where "s1 = \<lparr>server_id = ''s1'', server_name = ''a'', ip = ''10.0.0.1'', port = 80,
          weight = 100, isActive = True,
          health = Some \<lparr>status = ''healthy'', responseTime = 30, uptime = 0, load = 0,
                         memoryUsage = 0, diskUsage = 0\<rparr>\<rparr>"
  define s2 where "s2 = \<lparr>server_id = ''s2'', server_name = ''b'', ip = ''10.0.0.2'', port = 8080,
          weight = 100, isActive = True,
          health = Some \<lparr>status = ''healthy'', responseTime = 10, uptime = 0, load = 0,
                         memoryUsage = 0, diskUsage = 0\<rparr>\<rparr>"
  define s3 where "s3 = \<lparr>server_id = ''s3'', server_name = ''c'', ip = ''10.0.0.3'', port = 443,
          weight = 100, isActive = True,
          health = Some \<lparr>status = ''healthy'', responseTime = 20, uptime = 0, load = 0,
                         memoryUsage = 0, diskUsage = 0\<rparr>\<rparr>"
  define lb where "lb = \<lparr>lb_id = ''lb1'', lb_name = ''web'', lb_domainId = ''d1'',
      lb_domainName = ''example.com'', lb_isActive = True, algorithm = ''health-based'',
      servers = [s1, s2, s3]\<rparr>"
  have lbf: "lb_isActive lb" "lb_domainName lb = ''example.com''" "lb_name lb = ''web''"
    "algorithm lb = ''health-based''" "servers lb = [s1, s2, s3]"
    by (simp_all add: lb_def)
  have k: "responseTimeKey s1 = 30" "responseTimeKey s2 = 10" "responseTimeKey s3 = 20"
    by (simp_all add: responseTimeKey_def s1_def s2_def s3_def)
  have ips: "ip s1 = ''10.0.0.1''" "ip s2 = ''10.0.0.2''" "ip s3 = ''10.0.0.3''"
    by (simp_all add: s1_def s2_def s3_def)
  have ports: "port s1 = 80" "port s2 = 8080" "port s3 = 443"
    by (simp_all add: s1_def s2_def s3_def)
  have h: "zoneHealthy (servers lb) = [s1, s2, s3]"
    by (simp add: zoneHealthy_def lbf s1_def s2_def s3_def)
  have a: "algorithmRecords lb [s1, s2, s3] =
       ''web       IN      A       10.0.0.2'' @ nl
       @ ''web       IN      A       10.0.0.3'' @ nl
       @ ''web       IN      A       10.0.0.1'' @ nl"
    by (simp add: algorithmRecords_def lbf k aLine_def ips)
  have after: "afterAlgorithm lb [s1, s2, s3] = [s2, s3, s1]"
    by (simp add: afterAlgorithm_def lbf k)
  have n33: "intToString 33 = ''33''"
    by (simp add: intToString_def natToString.simps)
  have n80: "intToString 80 = ''80''"
    by (simp add: intToString_def natToString.simps)
  have n443: "intToString 443 = ''443''"
    by (simp add: intToString_def natToString.simps)
  have n8080: "intToString 8080 = ''8080''"
    by (simp add: intToString_def natToString.simps)
  have len: "1 < length (zoneHealthy (servers lb))" "100 div int (length (zoneHealthy (servers lb))) = 33"
    unfolding h by simp_all
  from srv_records_per_healthy_server [of _ _ lb _ "''example.com''", THEN conjunct2, THEN mp,
      OF conjI [OF lbf(1) lbf(2)], THEN conjunct1, THEN mp, OF len(1), THEN conjunct1]
  have "balancerRecords ''example.com'' lb =
          algorithmRecords lb (zoneHealthy (servers lb))
          @ concat (map (\<lambda>server.
                ''_'' @ lb_name lb @ ''._tcp.'' @ ''example.com''
                @ ''.       IN      SRV     0 ''
                @ intToString (100 div int (length (zoneHealthy (servers lb))))
                @ '' '' @ intToString (port server) @ '' '' @ ip server @ nl)
              (afterAlgorithm lb (zoneHealthy (servers lb))))" .
  then have "balancerRecords ''example.com'' lb =
       ''web       IN      A       10.0.0.2'' @ nl
       @ ''web       IN      A       10.0.0.3'' @ nl
       @ ''web       IN      A       10.0.0.1'' @ nl
       @ ''_web._tcp.example.com.       IN      SRV     0 33 8080 10.0.0.2'' @ nl
       @ ''_web._tcp.example.com.       IN      SRV     0 33 443 10.0.0.3'' @ nl
       @ ''_web._tcp.example.com.       IN      SRV     0 33 80 10.0.0.1'' @ nl"
    unfolding len(2) unfolding h a after
    by (simp add: lbf(3) ips ports n33 n80 n443 n8080)
  note many = this
  define s4 where "s4 = \<lparr>server_id = ''s4'', server_name = ''d'', ip = ''10.0.0.4'', port = 80,
          weight = 100, isActive = True,
          health = Some \<lparr>status = ''healthy'', responseTime = 30, uptime = 0, load = 0,
                         memoryUsage = 0, diskUsage = 0\<rparr>\<rparr>"
  define s5 where "s5 = \<lparr>server_id = ''s5'', server_name = ''e'', ip = ''10.0.0.5'', port = 80,
          weight = 100, isActive = True,
          health = Some \<lparr>status = ''degraded'', responseTime = - 1, uptime = 0, load = 0,
                         memoryUsage = 0, diskUsage = 0\<rparr>\<rparr>"
  define lb2 where "lb2 = \<lparr>lb_id = ''lb2'', lb_name = ''api'', lb_domainId = ''d1'',
      lb_domainName = ''example.com'', lb_isActive = True, algorithm = ''round-robin'',
      servers = [s4, s5]\<rparr>"
  have lb2f: "lb_isActive lb2" "lb_domainName lb2 = ''example.com''" "lb_name lb2 = ''api''"
    "algorithm lb2 = ''round-robin''" "servers lb2 = [s4, s5]"
    by (simp_all add: lb2_def)
  have h2: "zoneHealthy (servers lb2) = [s4]"
    by (simp add: zoneHealthy_def lb2f s4_def s5_def)
  have len2: "length (zoneHealthy (servers lb2)) \<le> 1" unfolding h2 by simp
  from srv_records_per_healthy_server [of _ _ lb2 _ "''example.com''", THEN conjunct2, THEN mp,
      OF conjI [OF lb2f(1) lb2f(2)], THEN conjunct2, THEN mp, OF len2, THEN conjunct2]
  have "balancerRecords ''example.com'' lb2 = algorithmRecords lb2 (zoneHealthy (servers lb2))" .
  then have single: "balancerRecords ''example.com'' lb2 = ''api       IN      A       10.0.0.4'' @ nl"
    unfolding h2 by (simp add: algorithmRecords_def lb2f aLine_def s4_def)
  from lbf(1) many single show ?thesis
    unfolding lb_def s1_def s2_def s3_def lb2_def s4_def s5_def by blast
qed

section \<open>Weighted emission with small weights\<close>

lemma recordCount_small: "weight server < 10 \<Longrightarrow> recordCount server \<le> 0"
proof (cases "0 \<le> weight server")
  case True
  assume "weight server < 10"
  with True binary64_tenth_floor [of "weight server"] show ?thesis
    by (simp add: recordCount_def)
next
  case False
  then have "binary64 (real_of_int (weight server) / 10) \<le> 0"
    by (intro binary64_nonpos) simp
  then have "\<lfloor>binary64 (real_of_int (weight server) / 10)\<rfloor> \<le> 0"
    by (simp add: floor_le_iff)
  then show ?thesis by (simp add: recordCount_def)
qed

lemma weighted_records_empty:
  "\<forall>s\<in>set hs. weight s \<le> 9 \<Longrightarrow>
     concat (map (\<lambda>server. concat (replicate (nat (recordCount server)) (aLine lb server))) hs) = []"
proof (induction hs)
  case Nil
  then show ?case by simp
next
  case (Cons s hs)
  then have "weight s < 10" by simp
  from recordCount_small [OF this] have "nat (recordCount s) = 0" by simp
  with Cons show ?case by simp
qed

text \<open>
  C10. In the weighted emission a healthy server whose weight is below 10 gets
  \<^verbatim>\<open>Math.floor(weight / 10) = 0\<close> address records (the count is \<open>weight div 10\<close> for
  every weight from 0 up to 2 to the power 53). So a weighted balancer all of whose
  healthy servers have weight at most 9 adds no address record at all: its part of the
  zone text consists of the \<^verbatim>\<open>SRV\<close> lines only, although healthy servers exist.
\<close>

theorem weighted_small_weights_no_A:
  "zoneContent d (before @ lb # after) =
     zoneHeader (domain_name d)
     @ concat (map (recordLine (domain_name d)) (records d))
     @ concat (map (balancerRecords (domain_name d)) before)
     @ balancerRecords (domain_name d) lb
     @ concat (map (balancerRecords (domain_name d)) after)
   \<and> (weight server < 10 \<longrightarrow>
      nat (recordCount server) = 0
      \<and> concat (replicate (nat (recordCount server)) (aLine lb server)) = [])
   \<and> (0 \<le> weight server \<and> weight server < 2 ^ 53 \<longrightarrow>
      recordCount server = weight server div 10)
   \<and> (algorithm lb = ''weighted'' \<and> (\<forall>s\<in>set (zoneHealthy (servers lb)). weight s \<le> 9) \<longrightarrow>
      algorithmRecords lb (zoneHealthy (servers lb)) = []
      \<and> balancerRecords domainName lb =
          (if balancerApplies domainName lb
           then srvRecords domainName lb (zoneHealthy (servers lb)) else []))"
proof (intro conjI impI)
  show "zoneContent d (before @ lb # after) =
     zoneHeader (domain_name d)
     @ concat (map (recordLine (domain_name d)) (records d))
     @ concat (map (balancerRecords (domain_name d)) before)
     @ balancerRecords (domain_name d) lb
     @ concat (map (balancerRecords (domain_name d)) after)"
    by (rule zoneContent_balancer_block)
next
  assume "weight server < 10"
  from recordCount_small [OF this] show "nat (recordCount server) = 0" by simp
  then show "concat (replicate (nat (recordCount server)) (aLine lb server)) = []" by simp
next
  assume "0 \<le> weight server \<and> weight server < 2 ^ 53"
  then show "recordCount server = weight server div 10"
    by (simp add: recordCount_def binary64_tenth_floor)
next
  assume a: "algorithm lb = ''weighted'' \<and> (\<forall>s\<in>set (zoneHealthy (servers lb)). weight s \<le> 9)"
  then show e: "algorithmRecords lb (zoneHealthy (servers lb)) = []"
    by (simp add: algorithmRecords_def weighted_records_empty)
  from a have "afterAlgorithm lb (zoneHealthy (servers lb)) = zoneHealthy (servers lb)"
    by (simp add: afterAlgorithm_def)
  with e show "balancerRecords domainName lb =
          (if balancerApplies domainName lb
           then srvRecords domainName lb (zoneHealthy (servers lb)) else [])"
    by (simp add: balancerRecords_def Let_def srvRecords_def)
qed

theorem weighted_small_weights_no_A_witness:
  "weight \<lparr>server_id = ''s1'', server_name = ''a'', ip = ''10.0.0.1'', port = 80, weight = 9,
      isActive = True,
      health = Some \<lparr>status = ''healthy'', responseTime = 12, uptime = 0, load = 0,
                     memoryUsage = 0, diskUsage = 0\<rparr>\<rparr> < 10
   \<and> recordCount \<lparr>server_id = ''s1'', server_name = ''a'', ip = ''10.0.0.1'', port = 80,
      weight = 9, isActive = True,
      health = Some \<lparr>status = ''healthy'', responseTime = 12, uptime = 0, load = 0,
                     memoryUsage = 0, diskUsage = 0\<rparr>\<rparr> = 0
   \<and> balancerRecords ''example.com''
     \<lparr>lb_id = ''lb1'', lb_name = ''web'', lb_domainId = ''d1'', lb_domainName = ''example.com'',
      lb_isActive = True, algorithm = ''weighted'',
      servers =
        [\<lparr>server_id = ''s1'', server_name = ''a'', ip = ''10.0.0.1'', port = 80, weight = 9,
          isActive = True,
          health = Some \<lparr>status = ''healthy'', responseTime = 12, uptime = 0, load = 0,
                         memoryUsage = 0, diskUsage = 0\<rparr>\<rparr>,
         \<lparr>server_id = ''s2'', server_name = ''b'', ip = ''10.0.0.2'', port = 80, weight = 5,
          isActive = True,
          health = Some \<lparr>status = ''healthy'', responseTime = 15, uptime = 0, load = 0,
                         memoryUsage = 0, diskUsage = 0\<rparr>\<rparr>]\<rparr>
     = ''_web._tcp.example.com.       IN      SRV     0 50 80 10.0.0.1'' @ nl
       @ ''_web._tcp.example.com.       IN      SRV     0 50 80 10.0.0.2'' @ nl"
proof -
  let ?s1 = "\<lparr>server_id = ''s1'', server_name = ''a'', ip = ''10.0.0.1'', port = 80, weight = 9,
      isActive = True,
      health = Some \<lparr>status = ''healthy'', responseTime = 12, uptime = 0, load = 0,
                     memoryUsage = 0, diskUsage = 0\<rparr>\<rparr>"
  let ?s2 = "\<lparr>server_id = ''s2'', server_name = ''b'', ip = ''10.0.0.2'', port = 80, weight = 5,
          isActive = True,
          health = Some \<lparr>status = ''healthy'', responseTime = 15, uptime = 0, load = 0,
                         memoryUsage = 0, diskUsage = 0\<rparr>\<rparr>"
  let ?lb = "\<lparr>lb_id = ''lb1'', lb_name = ''web'', lb_domainId = ''d1'',
      lb_domainName = ''example.com'', lb_isActive = True, algorithm = ''weighted'',
      servers = [?s1, ?s2]\<rparr>"
  have n50: "natToString 50 = ''50''" by (simp add: natToString.simps)
  have n80: "natToString 80 = ''80''" by (simp add: natToString.simps)
  have w: "srvWeight (Suc (Suc 0)) = 50" using srvWeight_floor [of "Suc (Suc 0)"] by simp
  have h: "zoneHealthy (servers ?lb) = [?s1, ?s2]" by (simp add: zoneHealthy_def)
  have srv: "srvRecords ''example.com'' ?lb [?s1, ?s2] =
       ''_web._tcp.example.com.       IN      SRV     0 50 80 10.0.0.1'' @ nl
       @ ''_web._tcp.example.com.       IN      SRV     0 50 80 10.0.0.2'' @ nl"
    by (simp add: srvRecords_def srvLine_def w intToString_def n50 n80)
  have ap: "balancerApplies ''example.com'' ?lb" by (simp add: balancerApplies_def)
  have small: "\<forall>s\<in>set (zoneHealthy (servers ?lb)). weight s \<le> 9"
    unfolding h by simp
  from weighted_small_weights_no_A [of _ _ ?lb _ ?s1 "''example.com''"] small ap
  have "recordCount ?s1 = 0" and "balancerRecords ''example.com'' ?lb =
      srvRecords ''example.com'' ?lb (zoneHealthy (servers ?lb))"
    by simp_all
  then show ?thesis unfolding h srv by simp
qed

section \<open>A withdrawn balancer\<close>

text \<open>A balancer without a healthy server adds nothing of its own to the zone.\<close>

lemma balancerRecords_no_healthy:
  "zoneHealthy (servers lb) = [] \<Longrightarrow> balancerRecords domainName lb = []"
  by (simp add: balancerRecords_def)

text \<open>
  C1, evaluated on the code. A selection pass for the balancer \<^verbatim>\<open>web\<close> of
  \<^verbatim>\<open>example.com\<close> persists the record \<^verbatim>\<open>web.example.com A 10.0.0.1\<close> with
  \<^verbatim>\<open>isLoadBalanced\<close> false. When the only server is unhealthy afterwards the balancer
  has no healthy server and adds nothing to the zone, yet the zone synthesized from the
  stored records advertises the stale address as a static record.
\<close>

theorem stale_balancer_record_emitted:
  "fst (updateDNSRecords (\<lambda>c. True) [] ''r1'' 0 0
     \<lparr>lb_id = ''lb1'', lb_name = ''web'', lb_domainId = ''d1'', lb_domainName = ''example.com'',
      lb_isActive = True, algorithm = ''round-robin'',
      servers =
        [\<lparr>server_id = ''s1'', server_name = ''a'', ip = ''10.0.0.1'', port = 8080,
          weight = 100, isActive = True,
          health = Some \<lparr>status = ''healthy'', responseTime = 12, uptime = 0, load = 0,
                         memoryUsage = 0, diskUsage = 0\<rparr>\<rparr>]\<rparr>)
   = [\<lparr>rec_id = ''r1'', rec_domainId = ''d1'', rec_name = ''web.example.com'',
       rec_type = ''A'', rec_value = ''10.0.0.1'', rec_ttl = 60, rec_priority = None,
       rec_weight = None, rec_port = None, isLoadBalanced = False, loadBalancerId = None\<rparr>]
   \<and> zoneHealthy
       [\<lparr>server_id = ''s1'', server_name = ''a'', ip = ''10.0.0.1'', port = 8080,
         weight = 100, isActive = True,
         health = Some \<lparr>status = ''unhealthy'', responseTime = - 1, uptime = 0, load = 0,
                        memoryUsage = 0, diskUsage = 0\<rparr>\<rparr>] = []
   \<and> zoneContent
       \<lparr>domain_id = ''d1'', domain_name = ''example.com'',
        records =
          [\<lparr>rec_id = ''r1'', rec_domainId = ''d1'', rec_name = ''web.example.com'',
            rec_type = ''A'', rec_value = ''10.0.0.1'', rec_ttl = 60, rec_priority = None,
            rec_weight = None, rec_port = None, isLoadBalanced = False,
            loadBalancerId = None\<rparr>]\<rparr>
       [\<lparr>lb_id = ''lb1'', lb_name = ''web'', lb_domainId = ''d1'',
         lb_domainName = ''example.com'', lb_isActive = True, algorithm = ''round-robin'',
         servers =
           [\<lparr>server_id = ''s1'', server_name = ''a'', ip = ''10.0.0.1'', port = 8080,
             weight = 100, isActive = True,
             health = Some \<lparr>status = ''unhealthy'', responseTime = - 1, uptime = 0,
                            load = 0, memoryUsage = 0, diskUsage = 0\<rparr>\<rparr>]\<rparr>]
     = zoneHeader ''example.com'' @ ''web       IN      A     10.0.0.1'' @ nl"
proof -
  have n: "zoneRecordName ''example.com'' ''web.example.com'' = Some ''web''"
    by code_simp
  show ?thesis
    by (simp add: updateDNSRecords_def healthyOf_def service_reloadBind9_def
        updateRoundRobinDNS_def persistSelection_def selectRoundRobin_def binary64_def
        createOrUpdateDNSRecord_def recordName_of_def zoneHealthy_def zoneContent_def
        recordLine_def n optionalField_def balancerRecords_def balancerApplies_def)
qed

end
